theory Spec2Isabelle
  imports Main "HOL-Library.Multiset"
begin

section \<open>JSON values and HTTP responses\<close>

text \<open>
  The bodies that \<open>response.json()\<close> yields. An object is the list of its properties
  (the keys of a parsed object are distinct, so the first binding of a key is its only one).
  Numbers are integer-valued here: \<open>fetchAllPages\<close> looks at a number only to decide whether
  it is zero.
\<close>

datatype json =
    JNull
  | JBool bool
  | JNum int
  | JStr string
  | JArr "json list"
  | JObj "(string \<times> json) list"

text \<open>JavaScript's conversion to boolean, as used by \<open>while (nextUrl)\<close>, \<open>data &&\<close> and \<open>if (data.next)\<close>.\<close>

fun truthy :: "json \<Rightarrow> bool" where
  "truthy JNull = False"
| "truthy (JBool b) = b"
| "truthy (JNum n) = (n \<noteq> 0)"
| "truthy (JStr s) = (s \<noteq> [])"
| "truthy (JArr xs) = True"
| "truthy (JObj kvs) = True"

text \<open>\<open>typeof data === 'object'\<close> (also true of \<open>null\<close>, which the truthiness test excludes).\<close>

fun typeof_object :: "json \<Rightarrow> bool" where
  "typeof_object JNull = True"
| "typeof_object (JArr xs) = True"
| "typeof_object (JObj kvs) = True"
| "typeof_object v = False"

text \<open>\<open>key in data\<close> for a parsed body; an array has index keys and \<open>length\<close> only.\<close>

fun has_key :: "string \<Rightarrow> json \<Rightarrow> bool" where
  "has_key k (JObj kvs) = (k \<in> fst ` set kvs)"
| "has_key k v = False"

text \<open>\<open>data.key\<close>; a missing property reads as \<open>undefined\<close>, which is \<open>None\<close> here.\<close>

fun field :: "string \<Rightarrow> json \<Rightarrow> json option" where
  "field k (JObj kvs) = map_of kvs k"
| "field k v = None"

fun isArray :: "json option \<Rightarrow> bool" where
  "isArray (Some (JArr xs)) = True"
| "isArray v = False"

fun elements :: "json option \<Rightarrow> json list" where
  "elements (Some (JArr xs)) = xs"
| "elements v = []"

text \<open>
  What a fetch can throw. \<open>FailedToFetchData status\<close> is
  \<open>new Error(`Failed to fetch data: ${response.status}`)\<close>; \<open>AbortError\<close> and
  \<open>ErrCanceled\<close> are the errors whose \<open>name\<close> is \<open>'AbortError'\<close> and whose \<open>code\<close> is
  \<open>'ERR_CANCELED'\<close>; \<open>FetchRejected\<close> is a rejected \<open>fetch\<close>; \<open>SyntaxError\<close> is a body
  that is not JSON; \<open>TypeError\<close> and \<open>RangeError\<close> are the built-in errors.
\<close>

datatype js_error =
    FailedToFetchData nat
  | AbortError
  | ErrCanceled
  | FetchRejected
  | SyntaxError
  | TypeError
  | RangeError

text \<open>A \<open>Response\<close>: its status and its body parsed as JSON (\<open>None\<close> when parsing fails).\<close>

record response =
  status :: nat
  body :: "json option"

text \<open>\<open>response.ok\<close> of the Fetch API: the status is in the range 200 to 299.\<close>

definition ok :: "response \<Rightarrow> bool" where
  "ok r = (200 \<le> status r \<and> status r \<le> 299)"

text \<open>
  The network as \<open>authenticatedFetch\<close> sees it: the reply to a request for a URL, given
  the URLs requested before it (oldest first). A reply is a response or a rejection.
\<close>

type_synonym network = "string list \<Rightarrow> string \<Rightarrow> js_error + response"

section \<open>api.js: the paginated fetch\<close>

definition API_BASE_URL :: string where
  "API_BASE_URL = ''https://jeewanjyoti-backend.smart.org.np''"

text \<open>\<open>nextUrl.replace(/^http:\/\//, 'https://')\<close>\<close>

definition secureUrl :: "string \<Rightarrow> string" where
  "secureUrl u = (if take 7 u = ''http://'' then ''https://'' @ drop 7 u else u)"

text \<open>
  The URL one iteration requests. The first page goes through \<open>apiRequest\<close>, which prefixes
  the base URL; later pages use the server's \<open>next\<close> link. \<open>nextUrl\<close> is then whatever
  truthy value the body had under \<open>next\<close>: only a string has a \<open>replace\<close> method, any other
  value makes the call throw a \<open>TypeError\<close> (\<open>None\<close> here).
\<close>

fun request_url :: "bool \<Rightarrow> json \<Rightarrow> string option" where
  "request_url True (JStr u) = Some (secureUrl u)"
| "request_url True v = None"
| "request_url False (JStr u) = Some (API_BASE_URL @ u)"
| "request_url False v = None"

text \<open>
  The first branch of the loop body:
  \<open>data && typeof data === 'object' && 'results' in data && Array.isArray(data.results)\<close>.
\<close>

definition is_envelope :: "json \<Rightarrow> bool" where
  "is_envelope data \<longleftrightarrow>
     truthy data \<and> typeof_object data \<and> has_key ''results'' data \<and> isArray (field ''results'' data)"

text \<open>\<open>if (data.next) { nextUrl = data.next } else { nextUrl = null }\<close>\<close>

definition next_link :: "json \<Rightarrow> json" where
  "next_link data =
     (case field ''next'' data of Some v \<Rightarrow> (if truthy v then v else JNull) | None \<Rightarrow> JNull)"

text \<open>
  The variables of the \<open>while (nextUrl)\<close> loop of \<open>fetchAllPages\<close>, and the log of the URLs
  requested so far (oldest first).
\<close>

record pages_state =
  allResults :: "json list"
  nextUrl :: json
  useAbsolute :: bool
  requested :: "string list"

text \<open>A finished call: the thrown error or the returned array, and the requests it made.\<close>

type_synonym pages_outcome = "(js_error + json list) \<times> string list"

text \<open>
  The loop test and one run of the loop body: the call returns or throws (\<open>Inl\<close>), or the
  loop goes round again with new variables (\<open>Inr\<close>).
\<close>

definition page_step :: "network \<Rightarrow> pages_state \<Rightarrow> pages_outcome + pages_state" where
  "page_step net st =
     (if \<not> truthy (nextUrl st) then Inl (Inr (allResults st), requested st)
      else case request_url (useAbsolute st) (nextUrl st) of
        None \<Rightarrow> Inl (Inl TypeError, requested st)
      | Some url \<Rightarrow>
          (case net (requested st) url of
             Inl e \<Rightarrow> Inl (Inl e, requested st @ [url])
           | Inr response \<Rightarrow>
               if \<not> ok response
               then Inl (Inl (FailedToFetchData (status response)), requested st @ [url])
               else (case body response of
                  None \<Rightarrow> Inl (Inl SyntaxError, requested st @ [url])
                | Some data \<Rightarrow>
                    if is_envelope data then
                      Inr \<lparr>allResults = allResults st @ elements (field ''results'' data),
                           nextUrl = next_link data, useAbsolute = True,
                           requested = requested st @ [url]\<rparr>
                    else if isArray (Some data) then
                      Inr \<lparr>allResults = allResults st @ elements (Some data),
                           nextUrl = JNull, useAbsolute = useAbsolute st,
                           requested = requested st @ [url]\<rparr>
                    else
                      Inr \<lparr>allResults = allResults st @ [data],
                           nextUrl = JNull, useAbsolute = useAbsolute st,
                           requested = requested st @ [url]\<rparr>)))"

text \<open>
  The loop. A server that keeps answering with a \<open>next\<close> link keeps it running, so it is a
  partial function: \<open>None\<close> is a run that never returns.
\<close>

partial_function (option) fetchPages :: "network \<Rightarrow> pages_state \<Rightarrow> pages_outcome option" where
  "fetchPages net st =
     (case page_step net st of Inl out \<Rightarrow> Some out | Inr st' \<Rightarrow> fetchPages net st')"

definition fetchAllPages :: "network \<Rightarrow> string \<Rightarrow> pages_outcome option" where
  "fetchAllPages net initialUrl =
     fetchPages net \<lparr>allResults = [], nextUrl = JStr initialUrl, useAbsolute = False, requested = []\<rparr>"

text \<open>The loop variables after \<open>k\<close> further runs of the body, or the outcome if the call ended earlier.\<close>

fun run_pages :: "network \<Rightarrow> nat \<Rightarrow> pages_state \<Rightarrow> pages_outcome + pages_state" where
  "run_pages net 0 st = Inr st"
| "run_pages net (Suc k) st =
     (case page_step net st of Inl out \<Rightarrow> Inl out | Inr st' \<Rightarrow> run_pages net k st')"

section \<open>api.js: the URLs of the metric fetch functions\<close>

text \<open>
  An argument that is a string or \<open>null\<close>. \<open>given\<close> is its truthiness (\<open>null\<close> and the empty
  string are falsy); \<open>str\<close> is its text inside a template literal.
\<close>

definition given :: "string option \<Rightarrow> bool" where
  "given a = (case a of None \<Rightarrow> False | Some s \<Rightarrow> s \<noteq> [])"

definition str :: "string option \<Rightarrow> string" where
  "str a = (case a of None \<Rightarrow> ''null'' | Some s \<Rightarrow> s)"

text \<open>
  The URL built by \<open>getSleepData\<close>, \<open>getSpO2Data\<close>, \<open>getHeartRateData\<close>,
  \<open>getBloodPressureData\<close>, \<open>getStressData\<close> and \<open>getHRVData\<close>: the six bodies are the same
  text up to the path.
\<close>

definition metric_url ::
  "string \<Rightarrow> string option \<Rightarrow> string option \<Rightarrow> string option \<Rightarrow> string option \<Rightarrow> string" where
  "metric_url path userId fromDate toDate range' =
     (let url = (if given userId then path @ ''?user_id='' @ str userId else path @ ''?'') in
      if given fromDate \<and> given toDate then
        (if given userId
         then path @ ''?user_id='' @ str userId @ ''&from='' @ str fromDate @ ''&to='' @ str toDate
         else path @ ''?from='' @ str fromDate @ ''&to='' @ str toDate)
      else if given range' then url @ ''&range='' @ str range'
      else if given fromDate then
        (url @ ''&from='' @ str fromDate) @ (if given toDate then ''&to='' @ str toDate else [])
      else if given toDate then url @ ''&to='' @ str toDate
      else url @ ''&range=24h'')"

definition getSleepData_url ::
  "string option \<Rightarrow> string option \<Rightarrow> string option \<Rightarrow> string option \<Rightarrow> string" where
  "getSleepData_url = metric_url ''/api/sleep-data/''"

definition getSpO2Data_url ::
  "string option \<Rightarrow> string option \<Rightarrow> string option \<Rightarrow> string option \<Rightarrow> string" where
  "getSpO2Data_url = metric_url ''/api/Spo2-data/''"

definition getHeartRateData_url ::
  "string option \<Rightarrow> string option \<Rightarrow> string option \<Rightarrow> string option \<Rightarrow> string" where
  "getHeartRateData_url = metric_url ''/api/HeartRate_Data/''"

definition getBloodPressureData_url ::
  "string option \<Rightarrow> string option \<Rightarrow> string option \<Rightarrow> string option \<Rightarrow> string" where
  "getBloodPressureData_url = metric_url ''/api/BloodPressure_Data/''"

definition getStressData_url ::
  "string option \<Rightarrow> string option \<Rightarrow> string option \<Rightarrow> string option \<Rightarrow> string" where
  "getStressData_url = metric_url ''/api/Stress_Data/''"

definition getHRVData_url ::
  "string option \<Rightarrow> string option \<Rightarrow> string option \<Rightarrow> string option \<Rightarrow> string" where
  "getHRVData_url = metric_url ''/api/HRV_Iso_Data/''"

text \<open>\<open>getHeartRateData\<close>: the URL, then the paginated fetch.\<close>

definition getHeartRateData ::
  "network \<Rightarrow> string option \<Rightarrow> string option \<Rightarrow> string option \<Rightarrow> string option
     \<Rightarrow> pages_outcome option" where
  "getHeartRateData net userId fromDate toDate range' =
     fetchAllPages net (getHeartRateData_url userId fromDate toDate range')"

text \<open>
  \<open>URLSearchParams.toString()\<close>: the pairs in order, \<open>name=value\<close> joined by \<open>&\<close>, each part
  percent-encoded as a form field (letters, digits and \<open>*-._\<close> stay, a space becomes \<open>+\<close>,
  any other byte becomes \<open>%XX\<close>). A string is its UTF-8 bytes.
\<close>

definition hex_digit :: "nat \<Rightarrow> char" where
  "hex_digit n = ''0123456789ABCDEF'' ! (n mod 16)"

definition form_safe :: "char \<Rightarrow> bool" where
  "form_safe c \<longleftrightarrow>
     c \<in> set ''abcdefghijklmnopqrstuvwxyzABCDEFGHIJKLMNOPQRSTUVWXYZ0123456789*-._''"

definition urlencode_char :: "char \<Rightarrow> string" where
  "urlencode_char c =
     (if form_safe c then [c]
      else if c = CHR '' '' then ''+''
      else [CHR ''%'', hex_digit (of_char c div 16), hex_digit (of_char c mod 16)])"

definition urlencode :: "string \<Rightarrow> string" where
  "urlencode s = concat (map urlencode_char s)"

fun params_toString :: "(string \<times> string) list \<Rightarrow> string" where
  "params_toString [] = []"
| "params_toString [(k, v)] = urlencode k @ ''='' @ urlencode v"
| "params_toString ((k, v) # ps) = urlencode k @ ''='' @ urlencode v @ ''&'' @ params_toString ps"

text \<open>\<open>getStepsData\<close>: the parameters appended to \<open>params\<close>, and the URL requested.\<close>

definition getStepsData_params ::
  "string option \<Rightarrow> string option \<Rightarrow> string option \<Rightarrow> string option \<Rightarrow> (string \<times> string) list" where
  "getStepsData_params userId fromDate toDate range' =
     (if given userId then [(''user'', str userId)] else []) @
     (if given fromDate \<and> given toDate then [(''from'', str fromDate), (''to'', str toDate)]
      else if given fromDate then [(''from'', str fromDate)]
      else if given toDate then [(''to'', str toDate)]
      else if given range' then [(''range'', str range')]
      else [])"

definition getStepsData_url ::
  "string option \<Rightarrow> string option \<Rightarrow> string option \<Rightarrow> string option \<Rightarrow> string" where
  "getStepsData_url userId fromDate toDate range' =
     (let q = params_toString (getStepsData_params userId fromDate toDate range') in
      if q \<noteq> [] then ''/api/Steps/'' @ ''?'' @ q else ''/api/Steps/'')"

text \<open>\<open>getDayTotalActivity\<close>\<close>

definition getDayTotalActivity_params ::
  "string option \<Rightarrow> string option \<Rightarrow> (string \<times> string) list" where
  "getDayTotalActivity_params userId range' =
     (if given userId then [(''user_id'', str userId)] else []) @
     (if given range' then [(''range'', str range')] else [])"

definition getDayTotalActivity_url :: "string option \<Rightarrow> string option \<Rightarrow> string" where
  "getDayTotalActivity_url userId range' =
     (let q = params_toString (getDayTotalActivity_params userId range') in
      if q \<noteq> [] then ''/api/Day_total_activity/'' @ ''?'' @ q else ''/api/Day_total_activity/'')"

text \<open>
  The query parameters a URL carries, as its receiver reads them: the text after the first
  \<open>?\<close>, cut at every \<open>&\<close>, each non-empty piece cut at its first \<open>=\<close>.
\<close>

fun split_on :: "char \<Rightarrow> string \<Rightarrow> string list" where
  "split_on c [] = [[]]"
| "split_on c (x # xs) =
     (if x = c then [] # split_on c xs
      else (case split_on c xs of [] \<Rightarrow> [[x]] | y # ys \<Rightarrow> (x # y) # ys))"

definition query_string :: "string \<Rightarrow> string" where
  "query_string url = drop 1 (dropWhile (\<lambda>c. c \<noteq> CHR ''?'') url)"

definition parse_param :: "string \<Rightarrow> string \<times> string" where
  "parse_param s =
     (takeWhile (\<lambda>c. c \<noteq> CHR ''='') s, drop 1 (dropWhile (\<lambda>c. c \<noteq> CHR ''='') s))"

definition query_params :: "string \<Rightarrow> (string \<times> string) list" where
  "query_params url =
     map parse_param (filter (\<lambda>s. s \<noteq> []) (split_on CHR ''&'' (query_string url)))"

section \<open>The records the panels read, and the date functions of the platform\<close>

text \<open>
  A record of a series as a panel reads it: its \<open>date\<close> text and the metric's own fields.
  Values are integers here.
\<close>

record sample =
  date :: string

record heart_sample = sample +
  once_heart_value :: int

record spo2_sample = sample +
  Blood_oxygen :: int

record bp_sample = sample +
  sbp :: int
  dbp :: int

record hrv_sample = sample +
  hrv :: int

record stress_sample = sample +
  stress :: int

text \<open>
  The built-in \<open>Date\<close> functions the components call, taken as parameters:
  \<open>getTime s\<close> is \<open>new Date(s)\<close> read as a number (the dates of a series are taken to be
  valid, so the subtraction in the comparator is never \<open>NaN\<close>);
  \<open>toISODate s\<close> is \<open>new Date(s).toISOString().split('T')[0]\<close>, \<open>None\<close> when
  \<open>toISOString\<close> throws a \<open>RangeError\<close> on an invalid date;
  \<open>toLocaleTimeString\<close> and \<open>toLocaleString\<close> are the two formatters, the flag of the second
  telling whether seconds are shown.
\<close>

record date_api =
  getTime :: "string \<Rightarrow> int"
  toISODate :: "string \<Rightarrow> string option"
  toLocaleTimeString :: "string \<Rightarrow> string"
  toLocaleString :: "bool \<Rightarrow> string \<Rightarrow> string"

text \<open>
  \<open>data.sort((a, b) => new Date(a.date) - new Date(b.date))\<close>: \<open>Array.prototype.sort\<close> is
  stable, and so is the insertion sort \<open>sort_key\<close>.
\<close>

definition sort_by_date :: "date_api \<Rightarrow> ('a sample_scheme) list \<Rightarrow> ('a sample_scheme) list" where
  "sort_by_date api data = sort_key (\<lambda>a. getTime api (date a)) data"

section \<open>HeartRateDataComponent.jsx: fetching, caching and cancelling\<close>

text \<open>The props: \<open>selectedUserId\<close> and \<open>dateRange\<close> (its fields \<open>from\<close> and \<open>to\<close> are \<open>range_from\<close> and \<open>range_to\<close>).\<close>

record date_range =
  customRange :: bool
  range_from :: "string option"
  range_to :: "string option"
  period :: "string option"

record props =
  selectedUserId :: "string option"
  dateRange :: "date_range option"

text \<open>\<open>/^\d{4}-\d{2}-\d{2}$/.test(date)\<close>\<close>

definition is_digit :: "char \<Rightarrow> bool" where
  "is_digit c \<longleftrightarrow> c \<in> set ''0123456789''"

fun is_ymd :: "string \<Rightarrow> bool" where
  "is_ymd [y1, y2, y3, y4, h1, m1, m2, h2, d1, d2] \<longleftrightarrow>
     list_all is_digit [y1, y2, y3, y4, m1, m2, d1, d2] \<and> h1 = CHR ''-'' \<and> h2 = CHR ''-''"
| "is_ymd s \<longleftrightarrow> False"

definition formatDateForAPI :: "date_api \<Rightarrow> string option \<Rightarrow> js_error + string option" where
  "formatDateForAPI api d =
     (if \<not> given d then Inr None
      else if is_ymd (str d) then Inr d
      else (case toISODate api (str d) of None \<Rightarrow> Inl RangeError | Some s \<Rightarrow> Inr (Some s)))"

text \<open>
  The variables of one call of \<open>fetchHeartRateData\<close> that are live across its \<open>await\<close>: the
  arguments of \<open>getHeartRateData\<close> and the cache key.
\<close>

record request =
  req_userId :: "string option"
  req_fromDate :: "string option"
  req_toDate :: "string option"
  req_range :: "string option"
  req_cacheKey :: string

text \<open>\<open>`${selectedUserId || 'null'}`\<close>\<close>

definition user_key :: "string option \<Rightarrow> string" where
  "user_key u = (if given u then str u else ''null'')"

text \<open>The mapping of \<open>dateRange?.period\<close> to the \<open>range\<close> parameter.\<close>

definition period_range :: "string option \<Rightarrow> string" where
  "period_range p =
     (if p = Some ''today'' then ''24h''
      else if p = Some ''week'' then ''7d''
      else if p = Some ''month'' then ''30d''
      else ''24h'')"

text \<open>
  "Determine API parameters based on date range": the arguments and the cache key, or the
  error thrown by \<open>formatDateForAPI\<close>.
\<close>

definition request_params :: "date_api \<Rightarrow> props \<Rightarrow> js_error + request" where
  "request_params api pr =
     (case dateRange pr of
        None \<Rightarrow>
          Inr \<lparr>req_userId = selectedUserId pr, req_fromDate = None, req_toDate = None,
               req_range = Some (period_range None),
               req_cacheKey = user_key (selectedUserId pr) @ ''-'' @ period_range None\<rparr>
      | Some dr \<Rightarrow>
          if customRange dr \<and> given (range_from dr) \<and> given (range_to dr) then
            (case formatDateForAPI api (range_from dr) of
               Inl e \<Rightarrow> Inl e
             | Inr f \<Rightarrow>
                 (case formatDateForAPI api (range_to dr) of
                    Inl e \<Rightarrow> Inl e
                  | Inr t \<Rightarrow>
                      Inr \<lparr>req_userId = selectedUserId pr, req_fromDate = f, req_toDate = t,
                           req_range = None,
                           req_cacheKey = user_key (selectedUserId pr) @ ''-'' @ str f @ ''-'' @ str t\<rparr>))
          else
            Inr \<lparr>req_userId = selectedUserId pr, req_fromDate = None, req_toDate = None,
                 req_range = Some (period_range (period dr)),
                 req_cacheKey = user_key (selectedUserId pr) @ ''-'' @ period_range (period dr)\<rparr>)"

text \<open>
  The cache: \<open>cacheRef.current\<close>, a \<open>Map\<close> from keys to \<open>{data, timestamp}\<close>. Times are
  milliseconds, as \<open>Date.now()\<close> gives them.
\<close>

type_synonym cache = "string \<rightharpoonup> heart_sample list \<times> int"

text \<open>
  "Check cache first": \<open>has(cacheKey)\<close> and \<open>now - cacheTime < 5 * 60 * 1000\<close>. A stale entry
  is left in the map.
\<close>

definition cache_get :: "cache \<Rightarrow> string \<Rightarrow> int \<Rightarrow> heart_sample list option" where
  "cache_get c key now =
     (case c key of
        None \<Rightarrow> None
      | Some (data, cacheTime) \<Rightarrow> if now - cacheTime < 5 * 60 * 1000 then Some data else None)"

text \<open>\<open>cacheRef.current.set(cacheKey, {data: sortedData, timestamp: Date.now()})\<close>\<close>

definition cache_put :: "cache \<Rightarrow> string \<Rightarrow> heart_sample list \<Rightarrow> int \<Rightarrow> cache" where
  "cache_put c key data now = c(key \<mapsto> (data, now))"

text \<open>
  One panel instance: its three pieces of state, its three refs, and the calls of the
  \<open>onHeartRateDataUpdate\<close> prop so far (oldest first). No call keeps its
  \<open>AbortController\<close> in a variable of its own: a controller is reached through
  \<open>abortControllerRef.current\<close> only, so the ref is \<open>None\<close> for \<open>null\<close> or holds the
  \<open>signal.aborted\<close> flag of the one controller it points to.
\<close>

record panel =
  heartRateData :: "heart_sample list"
  loading :: bool
  error :: "string option"
  cacheRef :: cache
  abortControllerRef :: "bool option"
  isMountedRef :: bool
  onHeartRateDataUpdate :: "heart_sample list list"

definition initial_panel :: panel where
  "initial_panel =
     \<lparr>heartRateData = [], loading = True, error = None, cacheRef = Map.empty,
      abortControllerRef = None, isMountedRef = True, onHeartRateDataUpdate = []\<rparr>"

text \<open>\<open>if (abortControllerRef.current) abortControllerRef.current.abort()\<close>\<close>

definition abort_current :: "panel \<Rightarrow> panel" where
  "abort_current p =
     (case abortControllerRef p of None \<Rightarrow> p | Some a \<Rightarrow> p\<lparr>abortControllerRef := Some True\<rparr>)"

text \<open>The \<open>catch\<close> block.\<close>

definition is_cancel :: "js_error \<Rightarrow> bool" where
  "is_cancel e \<longleftrightarrow> e = AbortError \<or> e = ErrCanceled"

definition catch_block :: "js_error \<Rightarrow> panel \<Rightarrow> panel" where
  "catch_block e p =
     (if is_cancel e \<or> \<not> isMountedRef p then p
      else if isMountedRef p
        then p\<lparr>error := Some ''Failed to load heart rate data. Please try again.''\<rparr>
        else p)"

text \<open>
  The \<open>finally\<close> block:
  \<open>if (isMountedRef.current && !abortControllerRef.current?.signal.aborted) setLoading(false)\<close>.
\<close>

definition finally_block :: "panel \<Rightarrow> panel" where
  "finally_block p =
     (if isMountedRef p \<and> abortControllerRef p \<noteq> Some True then p\<lparr>loading := False\<rparr> else p)"

text \<open>
  \<open>fetchHeartRateData\<close> from its start to its \<open>await\<close>, at time \<open>now\<close>. The call either ends
  there (an error thrown while the parameters are determined, or a fresh cache entry) or
  issues \<open>getHeartRateData\<close> and is suspended: then the request is returned with the state.
\<close>

definition fetch_begin :: "date_api \<Rightarrow> props \<Rightarrow> int \<Rightarrow> panel \<Rightarrow> panel \<times> request option" where
  "fetch_begin api pr now p0 =
     (let p1 = (abort_current p0)\<lparr>abortControllerRef := Some False\<rparr>;
          p2 = p1\<lparr>loading := True, error := None\<rparr>
      in case request_params api pr of
           Inl e \<Rightarrow> (finally_block (catch_block e p2), None)
         | Inr rq \<Rightarrow>
             (case cache_get (cacheRef p2) (req_cacheKey rq) now of
                Some cached \<Rightarrow>
                  (finally_block
                     (if isMountedRef p2
                      then p2\<lparr>heartRateData := cached,
                              onHeartRateDataUpdate := onHeartRateDataUpdate p2 @ [cached],
                              loading := False\<rparr>
                      else p2),
                   None)
              | None \<Rightarrow> (p2, Some rq)))"

text \<open>
  The rest of the \<open>try\<close> block, once \<open>getHeartRateData\<close> has resolved with \<open>data\<close>, at time
  \<open>now\<close>: the state reached, or the error thrown together with the state reached before it.
\<close>

definition try_resolved ::
  "date_api \<Rightarrow> request \<Rightarrow> heart_sample list \<Rightarrow> int \<Rightarrow> panel \<Rightarrow> js_error \<times> panel + panel" where
  "try_resolved api rq data now p =
     (if \<not> isMountedRef p then Inr p
      else case abortControllerRef p of
        None \<Rightarrow> Inl (TypeError, p)
      | Some aborted \<Rightarrow>
          if aborted then Inr p
          else if length data > 0 then
            (let sortedData = sort_by_date api data;
                 p1 = p\<lparr>cacheRef := cache_put (cacheRef p) (req_cacheKey rq) sortedData now\<rparr>
             in Inr (if isMountedRef p1
                     then p1\<lparr>heartRateData := sortedData,
                             onHeartRateDataUpdate := onHeartRateDataUpdate p1 @ [sortedData]\<rparr>
                     else p1))
          else
            Inr (if isMountedRef p
                 then p\<lparr>heartRateData := [],
                        onHeartRateDataUpdate := onHeartRateDataUpdate p @ [[]]\<rparr>
                 else p))"

text \<open>
  \<open>fetchHeartRateData\<close> from its \<open>await\<close> to its end: \<open>getHeartRateData\<close> has rejected with
  an error (\<open>Inl\<close>) or resolved with the records (\<open>Inr\<close>).
\<close>

definition fetch_resume ::
  "date_api \<Rightarrow> request \<Rightarrow> js_error + heart_sample list \<Rightarrow> int \<Rightarrow> panel \<Rightarrow> panel" where
  "fetch_resume api rq result now p =
     finally_block
       (case result of
          Inl e \<Rightarrow> catch_block e p
        | Inr data \<Rightarrow>
            (case try_resolved api rq data now p of
               Inl (e, p') \<Rightarrow> catch_block e p'
             | Inr p' \<Rightarrow> p'))"

text \<open>The effect of \<open>useEffect\<close> and its cleanup.\<close>

definition effect :: "date_api \<Rightarrow> props \<Rightarrow> int \<Rightarrow> panel \<Rightarrow> panel \<times> request option" where
  "effect api pr now p = fetch_begin api pr now (p\<lparr>isMountedRef := True\<rparr>)"

definition cleanup :: "panel \<Rightarrow> panel" where
  "cleanup p = abort_current (p\<lparr>isMountedRef := False\<rparr>)"

text \<open>What the component renders: the \<open>if (loading)\<close>, \<open>if (error)\<close> and empty-data returns, then the chart.\<close>

datatype view = Loading | ErrorWithRetry string | NoData | Chart "heart_sample list"

definition render :: "panel \<Rightarrow> view" where
  "render p =
     (if loading p then Loading
      else case error p of
        Some msg \<Rightarrow> ErrorWithRetry msg
      | None \<Rightarrow> if heartRateData p = [] then NoData else Chart (heartRateData p))"

text \<open>
  What happens to a panel instance, one event at a time: the effect runs (on mount and
  after a change of the props, with the props and the time), its cleanup runs (before the
  effect runs again, and on unmount), the Retry button is clicked (\<open>fetchHeartRateData\<close> is
  called as it is), or a call of \<open>getHeartRateData\<close> made earlier settles. A panel instance
  starts as \<open>initial_panel\<close>; \<open>run\<close> gives its state after a list of events.
\<close>

datatype event =
    Effect props int
  | Cleanup
  | Retry props int
  | Settled request "js_error + heart_sample list" int

fun step :: "date_api \<Rightarrow> panel \<Rightarrow> event \<Rightarrow> panel" where
  "step api p (Effect pr now) = fst (effect api pr now p)"
| "step api p Cleanup = cleanup p"
| "step api p (Retry pr now) = fst (fetch_begin api pr now p)"
| "step api p (Settled rq result now) = fetch_resume api rq result now p"

definition run :: "date_api \<Rightarrow> event list \<Rightarrow> panel" where
  "run api events = foldl (step api) initial_panel events"

section \<open>Derived statistics and chart data\<close>

text \<open>
  \<open>Math.round(sum / data.length)\<close> for an integer sum and a positive length: the nearest
  integer, a half rounded up.
\<close>

definition round_div :: "int \<Rightarrow> nat \<Rightarrow> int" where
  "round_div s n = (2 * s + int n) div (2 * int n)"

text \<open>The argument of a statistic is an array or \<open>null\<close> (\<open>None\<close>).\<close>

definition calculateAverageHeartRate :: "heart_sample list option \<Rightarrow> int" where
  "calculateAverageHeartRate data =
     (case data of
        None \<Rightarrow> 0
      | Some xs \<Rightarrow>
          if length xs = 0 then 0
          else round_div (fold (\<lambda>item acc. acc + once_heart_value item) xs 0) (length xs))"

record min_max =
  min_of :: int
  max_of :: int

definition calculateMinMaxHeartRate :: "heart_sample list option \<Rightarrow> min_max" where
  "calculateMinMaxHeartRate data =
     (case data of
        None \<Rightarrow> \<lparr>min_of = 0, max_of = 0\<rparr>
      | Some xs \<Rightarrow>
          if length xs = 0 then \<lparr>min_of = 0, max_of = 0\<rparr>
          else (let values = map once_heart_value xs
                in \<lparr>min_of = Min (set values), max_of = Max (set values)\<rparr>))"

definition calculateAverageSpO2 :: "spo2_sample list option \<Rightarrow> int" where
  "calculateAverageSpO2 data =
     (case data of
        None \<Rightarrow> 0
      | Some xs \<Rightarrow>
          if length xs = 0 then 0
          else round_div (fold (\<lambda>item acc. acc + Blood_oxygen item) xs 0) (length xs))"

definition calculateMinMaxSpO2 :: "spo2_sample list option \<Rightarrow> min_max" where
  "calculateMinMaxSpO2 data =
     (case data of
        None \<Rightarrow> \<lparr>min_of = 0, max_of = 0\<rparr>
      | Some xs \<Rightarrow>
          if length xs = 0 then \<lparr>min_of = 0, max_of = 0\<rparr>
          else (let values = map Blood_oxygen xs
                in \<lparr>min_of = Min (set values), max_of = Max (set values)\<rparr>))"

definition calculateAverageStress :: "stress_sample list option \<Rightarrow> int" where
  "calculateAverageStress data =
     (case data of
        None \<Rightarrow> 0
      | Some xs \<Rightarrow>
          if length xs = 0 then 0
          else round_div (fold (\<lambda>item acc. acc + stress item) xs 0) (length xs))"

definition calculateAverageHRV :: "hrv_sample list option \<Rightarrow> int" where
  "calculateAverageHRV data =
     (case data of
        None \<Rightarrow> 0
      | Some xs \<Rightarrow>
          if length xs = 0 then 0
          else round_div (fold (\<lambda>item acc. acc + hrv item) xs 0) (length xs))"

text \<open>A point of a chart (\<open>point_value\<close> and \<open>point_date\<close> are its fields \<open>value\<close> and \<open>date\<close>).\<close>

record chart_point =
  time :: string
  point_value :: int
  fullTime :: string
  point_date :: string

record bp_point =
  bp_time :: string
  systolic :: int
  diastolic :: int
  bp_fullTime :: string
  bp_date :: string

text \<open>\<open>processHeartRateData\<close>; its points also carry \<open>rawDate\<close>, which is \<open>new Date(item.date)\<close> again.\<close>

definition processHeartRateData :: "date_api \<Rightarrow> heart_sample list option \<Rightarrow> chart_point list" where
  "processHeartRateData api data =
     (case data of
        None \<Rightarrow> []
      | Some xs \<Rightarrow>
          if length xs = 0 then []
          else map (\<lambda>item. \<lparr>time = toLocaleTimeString api (date item),
                             point_value = once_heart_value item,
                             fullTime = toLocaleString api True (date item),
                             point_date = date item\<rparr>) xs)"

text \<open>
  The \<open>forEach\<close> of \<open>processSpO2Data\<close>, with \<open>seenDates\<close> as the list of the dates seen: an
  item is pushed to \<open>uniqueData\<close> when its date is new.
\<close>

fun uniqueData :: "string list \<Rightarrow> spo2_sample list \<Rightarrow> spo2_sample list" where
  "uniqueData seenDates [] = []"
| "uniqueData seenDates (item # items) =
     (if date item \<notin> set seenDates then item # uniqueData (date item # seenDates) items
      else uniqueData seenDates items)"

definition processSpO2Data :: "date_api \<Rightarrow> spo2_sample list option \<Rightarrow> chart_point list" where
  "processSpO2Data api data =
     (case data of
        None \<Rightarrow> []
      | Some xs \<Rightarrow>
          if length xs = 0 then []
          else (let sortedData = sort_by_date api (uniqueData [] xs)
                in map (\<lambda>item. \<lparr>time = toLocaleTimeString api (date item),
                                  point_value = Blood_oxygen item,
                                  fullTime = toLocaleString api True (date item),
                                  point_date = date item\<rparr>) sortedData))"

definition processBPData :: "date_api \<Rightarrow> bp_sample list option \<Rightarrow> bp_point list" where
  "processBPData api data =
     (case data of
        None \<Rightarrow> []
      | Some xs \<Rightarrow>
          if length xs = 0 then []
          else map (\<lambda>item. \<lparr>bp_time = toLocaleTimeString api (date item),
                             systolic = sbp item, diastolic = dbp item,
                             bp_fullTime = toLocaleString api False (date item),
                             bp_date = date item\<rparr>) xs)"

definition processHRVData :: "date_api \<Rightarrow> hrv_sample list option \<Rightarrow> chart_point list" where
  "processHRVData api data =
     (case data of
        None \<Rightarrow> []
      | Some xs \<Rightarrow>
          if length xs = 0 then []
          else map (\<lambda>item. \<lparr>time = toLocaleTimeString api (date item),
                             point_value = hrv item,
                             fullTime = toLocaleString api False (date item),
                             point_date = date item\<rparr>) xs)"

definition processStressData :: "date_api \<Rightarrow> stress_sample list option \<Rightarrow> chart_point list" where
  "processStressData api data =
     (case data of
        None \<Rightarrow> []
      | Some xs \<Rightarrow>
          if length xs = 0 then []
          else map (\<lambda>item. \<lparr>time = toLocaleTimeString api (date item),
                             point_value = stress item,
                             fullTime = toLocaleString api False (date item),
                             point_date = date item\<rparr>) xs)"

text \<open>The relative range tokens of the back end.\<close>

definition range_tokens :: "string set" where
  "range_tokens = {''24h'', ''7d'', ''30d''}"

section \<open>Example inputs\<close>

text \<open>A heart-rate record as the back end sends it, and a page of the paginated envelope.\<close>

definition reading :: "string \<Rightarrow> int \<Rightarrow> json" where
  "reading d v = JObj [(''date'', JStr d), (''once_heart_value'', JNum v)]"

definition page :: "json list \<Rightarrow> json \<Rightarrow> response" where
  "page rs nxt =
     \<lparr>status = 200,
      body = Some (JObj [(''count'', JNum 3), (''next'', nxt), (''previous'', JNull),
                         (''results'', JArr rs)])\<rparr>"

definition url_page1 :: string where
  "url_page1 = ''https://jeewanjyoti-backend.smart.org.np/api/HeartRate_Data/?user_id=u1&range=24h''"

definition next_page2 :: string where
  "next_page2 = ''http://jeewanjyoti-backend.smart.org.np/api/HeartRate_Data/?page=2&range=24h&user_id=u1''"

definition next_page3 :: string where
  "next_page3 = ''http://jeewanjyoti-backend.smart.org.np/api/HeartRate_Data/?page=3&range=24h&user_id=u1''"

text \<open>A server with three pages, and one whose second page answers 500.\<close>

definition three_pages :: network where
  "three_pages log url =
     (if url = url_page1 then Inr (page [reading ''2026-01-01T07:00:00Z'' 64] (JStr next_page2))
      else if url = secureUrl next_page2
        then Inr (page [reading ''2026-01-01T08:00:00Z'' 72] (JStr next_page3))
      else if url = secureUrl next_page3
        then Inr (page [reading ''2026-01-01T09:00:00Z'' 80] JNull)
      else Inr \<lparr>status = 404, body = None\<rparr>)"

definition second_page_fails :: network where
  "second_page_fails log url =
     (if url = url_page1 then Inr (page [reading ''2026-01-01T07:00:00Z'' 64] (JStr next_page2))
      else if url = secureUrl next_page2
        then Inr \<lparr>status = 500, body = Some (JObj [(''detail'', JStr ''Server Error'')])\<rparr>
      else if url = secureUrl next_page3
        then Inr (page [reading ''2026-01-01T09:00:00Z'' 80] JNull)
      else Inr \<lparr>status = 404, body = None\<rparr>)"

text \<open>A server that answers every request with status 200 and the same body.\<close>

definition always :: "json \<Rightarrow> network" where
  "always b log url = Inr \<lparr>status = 200, body = Some b\<rparr>"

text \<open>Date functions that know three instants of one morning.\<close>

definition example_api :: date_api where
  "example_api =
     \<lparr>getTime = (\<lambda>s. if s = ''2026-01-01T07:00:00Z'' then 1767250800000
                     else if s = ''2026-01-01T08:00:00Z'' then 1767254400000
                     else if s = ''2026-01-01T09:00:00Z'' then 1767258000000
                     else 0),
      toISODate = (\<lambda>s. None),
      toLocaleTimeString = (\<lambda>s. take 5 (drop 11 s)),
      toLocaleString = (\<lambda>seconds s. take (if seconds then 8 else 5) (drop 11 s))\<rparr>"

text \<open>The props of a panel showing user \<open>u1\<close>, for today and for the week, and the calls they lead to.\<close>

definition props_today :: props where
  "props_today =
     \<lparr>selectedUserId = Some ''u1'',
      dateRange = Some \<lparr>customRange = False, range_from = None, range_to = None,
                        period = Some ''today''\<rparr>\<rparr>"

definition props_week :: props where
  "props_week =
     \<lparr>selectedUserId = Some ''u1'',
      dateRange = Some \<lparr>customRange = False, range_from = None, range_to = None,
                        period = Some ''week''\<rparr>\<rparr>"

definition request_today :: request where
  "request_today =
     \<lparr>req_userId = Some ''u1'', req_fromDate = None, req_toDate = None,
      req_range = Some ''24h'', req_cacheKey = ''u1-24h''\<rparr>"

definition request_week :: request where
  "request_week =
     \<lparr>req_userId = Some ''u1'', req_fromDate = None, req_toDate = None,
      req_range = Some ''7d'', req_cacheKey = ''u1-7d''\<rparr>"

definition beat :: "string \<Rightarrow> int \<Rightarrow> heart_sample" where
  "beat d v = \<lparr>date = d, once_heart_value = v\<rparr>"

definition oxygen :: "string \<Rightarrow> int \<Rightarrow> spo2_sample" where
  "oxygen d v = \<lparr>date = d, Blood_oxygen = v\<rparr>"

text \<open>
  A panel is mounted with \<open>props_today\<close> at time 0 and its fetch A is in flight
  (\<open>fetching_today\<close>); at time 10 the props change to \<open>props_week\<close>, the cleanup runs, the
  effect runs again and fetch B is in flight (\<open>fetching_week\<close>).
\<close>

definition fetching_today :: panel where
  "fetching_today = run example_api [Effect props_today 0]"

definition fetching_week :: panel where
  "fetching_week = run example_api [Effect props_today 0, Cleanup, Effect props_week 10]"

text \<open>Fetch A of the mounted panel resolves with two readings, the later one first, at time 1000.\<close>

definition showing_readings :: panel where
  "showing_readings =
     run example_api [Effect props_today 0,
       Settled request_today
         (Inr [beat ''2026-01-01T08:00:00Z'' 72, beat ''2026-01-01T07:00:00Z'' 64]) 1000]"

text \<open>Fetch A of the mounted panel resolves with no records at time 1000.\<close>

definition showing_no_data :: panel where
  "showing_no_data = run example_api [Effect props_today 0, Settled request_today (Inr []) 1000]"

section \<open>The paginated fetch: properties\<close>

lemma fetchPages_return: "page_step net st = Inl out \<Longrightarrow> fetchPages net st = Some out"
  by (subst fetchPages.simps) simp

lemma fetchPages_continue:
  "page_step net st = Inr st' \<Longrightarrow> fetchPages net st = fetchPages net st'"
  by (subst fetchPages.simps) simp

lemma run_pages_continue:
  "run_pages net k st = Inr st' \<Longrightarrow> fetchPages net st = fetchPages net st'"
proof (induction k arbitrary: st)
  case 0
  then show ?case by simp
next
  case (Suc k)
  then show ?case
    by (cases "page_step net st") (simp_all add: fetchPages_continue)
qed

lemma is_envelope_results:
  "map_of kvs ''results'' = Some (JArr rs) \<Longrightarrow> is_envelope (JObj kvs)"
  by (auto simp: is_envelope_def dest!: map_of_SomeD intro: rev_image_eqI)

lemma page_step_envelope:
  assumes "truthy (nextUrl st)" "request_url (useAbsolute st) (nextUrl st) = Some url"
    and "net (requested st) url = Inr r" "ok r" "body r = Some (JObj kvs)"
    and "map_of kvs ''results'' = Some (JArr rs)"
  shows "page_step net st =
     Inr \<lparr>allResults = allResults st @ rs, nextUrl = next_link (JObj kvs), useAbsolute = True,
          requested = requested st @ [url]\<rparr>"
  using assms by (simp add: page_step_def is_envelope_results)

text \<open>
  Claim C3. When the first page links to a second, the second to a third, and the third has
  \<open>next = null\<close>, \<open>fetchAllPages\<close> returns the three \<open>results\<close> arrays concatenated in page
  order, after exactly three requests: the initial path under the base URL, then the two
  links with their scheme made secure.
\<close>

theorem three_page_chain:
  assumes "initialUrl \<noteq> []"
    and "net [] (API_BASE_URL @ initialUrl) = Inr p1" "ok p1" "body p1 = Some (JObj kv1)"
      "map_of kv1 ''results'' = Some (JArr r1)" "map_of kv1 ''next'' = Some (JStr n1)" "n1 \<noteq> []"
    and "net [API_BASE_URL @ initialUrl] (secureUrl n1) = Inr p2" "ok p2"
      "body p2 = Some (JObj kv2)"
      "map_of kv2 ''results'' = Some (JArr r2)" "map_of kv2 ''next'' = Some (JStr n2)" "n2 \<noteq> []"
    and "net [API_BASE_URL @ initialUrl, secureUrl n1] (secureUrl n2) = Inr p3" "ok p3"
      "body p3 = Some (JObj kv3)"
      "map_of kv3 ''results'' = Some (JArr r3)" "map_of kv3 ''next'' = Some JNull"
  shows "fetchAllPages net initialUrl =
     Some (Inr (r1 @ r2 @ r3), [API_BASE_URL @ initialUrl, secureUrl n1, secureUrl n2])"
proof -
  let ?u1 = "API_BASE_URL @ initialUrl"
  let ?s0 = "\<lparr>allResults = [], nextUrl = JStr initialUrl, useAbsolute = False, requested = []\<rparr>"
  let ?s1 = "\<lparr>allResults = r1, nextUrl = JStr n1, useAbsolute = True, requested = [?u1]\<rparr>"
  let ?s2 = "\<lparr>allResults = r1 @ r2, nextUrl = JStr n2, useAbsolute = True,
              requested = [?u1, secureUrl n1]\<rparr>"
  let ?s3 = "\<lparr>allResults = r1 @ r2 @ r3, nextUrl = JNull, useAbsolute = True,
              requested = [?u1, secureUrl n1, secureUrl n2]\<rparr>"
  have 1: "page_step net ?s0 = Inr ?s1"
    using assms(1-7) by (simp add: page_step_envelope[where url="?u1"] next_link_def)
  have 2: "page_step net ?s1 = Inr ?s2"
    using assms(7-13) by (simp add: page_step_envelope[where url="secureUrl n1"] next_link_def)
  have 3: "page_step net ?s2 = Inr ?s3"
    using assms(13-18) by (simp add: page_step_envelope[where url="secureUrl n2"] next_link_def)
  have 4: "page_step net ?s3 = Inl (Inr (r1 @ r2 @ r3), [?u1, secureUrl n1, secureUrl n2])"
    by (simp add: page_step_def)
  show ?thesis
    unfolding fetchAllPages_def
    by (simp only: fetchPages_continue[OF 1] fetchPages_continue[OF 2]
        fetchPages_continue[OF 3] fetchPages_return[OF 4])
qed

text \<open>The three-page server: the heart-rate fetch for user \<open>u1\<close> returns the three readings with three requests.\<close>

theorem three_page_chain_witness:
  "getHeartRateData three_pages (Some ''u1'') None None (Some ''24h'') =
     Some (Inr [reading ''2026-01-01T07:00:00Z'' 64, reading ''2026-01-01T08:00:00Z'' 72,
                reading ''2026-01-01T09:00:00Z'' 80],
           [url_page1, secureUrl next_page2, secureUrl next_page3])"
proof -
  have "fetchAllPages three_pages ''/api/HeartRate_Data/?user_id=u1&range=24h'' =
     Some (Inr ([reading ''2026-01-01T07:00:00Z'' 64] @ [reading ''2026-01-01T08:00:00Z'' 72] @
                [reading ''2026-01-01T09:00:00Z'' 80]),
           [API_BASE_URL @ ''/api/HeartRate_Data/?user_id=u1&range=24h'',
            secureUrl next_page2, secureUrl next_page3])"
    by (rule three_page_chain[where
          ?p1.0 = "page [reading ''2026-01-01T07:00:00Z'' 64] (JStr next_page2)"
          and ?p2.0 = "page [reading ''2026-01-01T08:00:00Z'' 72] (JStr next_page3)"
          and ?p3.0 = "page [reading ''2026-01-01T09:00:00Z'' 80] JNull"
          and ?kv1.0 = "[(''count'', JNum 3), (''next'', JStr next_page2), (''previous'', JNull),
                         (''results'', JArr [reading ''2026-01-01T07:00:00Z'' 64])]"
          and ?kv2.0 = "[(''count'', JNum 3), (''next'', JStr next_page3), (''previous'', JNull),
                         (''results'', JArr [reading ''2026-01-01T08:00:00Z'' 72])]"
          and ?kv3.0 = "[(''count'', JNum 3), (''next'', JNull), (''previous'', JNull),
                         (''results'', JArr [reading ''2026-01-01T09:00:00Z'' 80])]"])
       (simp_all add: three_pages_def page_def ok_def url_page1_def next_page2_def
          next_page3_def secureUrl_def API_BASE_URL_def)
  then show ?thesis
    by (simp add: getHeartRateData_def getHeartRateData_url_def metric_url_def given_def str_def
        url_page1_def API_BASE_URL_def)
qed

text \<open>
  Claim C4. Whatever pages were loaded before (\<open>k\<close> runs of the loop body from the start
  lead to the loop variables \<open>st\<close>), if the reply to the next request has a status outside
  200 to 299, \<open>fetchAllPages\<close> ends there: it throws the error that carries this status,
  that request is its last, and the results gathered in \<open>allResults st\<close> are not returned.
\<close>

theorem failing_page_aborts:
  assumes "run_pages net k
      \<lparr>allResults = [], nextUrl = JStr initialUrl, useAbsolute = False, requested = []\<rparr> = Inr st"
    and "truthy (nextUrl st)" "request_url (useAbsolute st) (nextUrl st) = Some url"
    and "net (requested st) url = Inr r" "\<not> ok r"
  shows "fetchAllPages net initialUrl =
     Some (Inl (FailedToFetchData (status r)), requested st @ [url])"
proof -
  have "page_step net st = Inl (Inl (FailedToFetchData (status r)), requested st @ [url])"
    using assms(2-5) by (simp add: page_step_def)
  then have "fetchPages net st = Some (Inl (FailedToFetchData (status r)), requested st @ [url])"
    by (rule fetchPages_return)
  with run_pages_continue[OF assms(1)] show ?thesis
    by (simp add: fetchAllPages_def)
qed

text \<open>Page 2 of 3 answers 500: the call throws with status 500 after two requests; the reading of page 1 is gone.\<close>

theorem failing_page_aborts_witness:
  "fetchAllPages second_page_fails ''/api/HeartRate_Data/?user_id=u1&range=24h'' =
     Some (Inl (FailedToFetchData 500), [url_page1, secureUrl next_page2])"
proof -
  let ?st = "\<lparr>allResults = [reading ''2026-01-01T07:00:00Z'' 64], nextUrl = JStr next_page2,
              useAbsolute = True, requested = [url_page1]\<rparr>"
  let ?r = "\<lparr>status = 500, body = Some (JObj [(''detail'', JStr ''Server Error'')])\<rparr>"
  have loaded: "run_pages second_page_fails (Suc 0)
      \<lparr>allResults = [], nextUrl = JStr ''/api/HeartRate_Data/?user_id=u1&range=24h'',
       useAbsolute = False, requested = []\<rparr> = Inr ?st"
    by (simp add: page_step_def second_page_fails_def page_def ok_def is_envelope_def
        next_link_def url_page1_def next_page2_def API_BASE_URL_def)
  have link: "truthy (nextUrl ?st)" "request_url (useAbsolute ?st) (nextUrl ?st) = Some (secureUrl next_page2)"
    by (simp_all add: next_page2_def)
  have reply: "second_page_fails (requested ?st) (secureUrl next_page2) = Inr ?r"
    by (simp add: second_page_fails_def url_page1_def next_page2_def secureUrl_def)
  have bad: "\<not> ok ?r"
    by (simp add: ok_def)
  show ?thesis
    using failing_page_aborts[OF loaded link reply bad] by simp
qed

text \<open>
  Claim C10. When the body of the first page is neither an envelope (an object whose
  \<open>results\<close> is an array) nor an array, be it an object, \<open>null\<close>, a number, a string or a
  boolean, \<open>fetchAllPages\<close> returns the one-element array holding that body, after that one
  request, and throws nothing.
\<close>

theorem single_record_body:
  assumes "initialUrl \<noteq> []" "net [] (API_BASE_URL @ initialUrl) = Inr r" "ok r"
    and "body r = Some data" "\<not> is_envelope data" "\<not> isArray (Some data)"
  shows "fetchAllPages net initialUrl = Some (Inr [data], [API_BASE_URL @ initialUrl])"
proof -
  let ?s0 = "\<lparr>allResults = [], nextUrl = JStr initialUrl, useAbsolute = False, requested = []\<rparr>"
  let ?s1 = "\<lparr>allResults = [data], nextUrl = JNull, useAbsolute = False,
              requested = [API_BASE_URL @ initialUrl]\<rparr>"
  have "page_step net ?s0 = Inr ?s1"
    using assms by (simp add: page_step_def)
  moreover have "page_step net ?s1 = Inl (Inr [data], [API_BASE_URL @ initialUrl])"
    by (simp add: page_step_def)
  ultimately show ?thesis
    by (simp add: fetchAllPages_def fetchPages_continue fetchPages_return)
qed

text \<open>The bodies \<open>null\<close>, \<open>7\<close>, \<open>"ok"\<close> and an object without \<open>results\<close> each come back as the only element.\<close>

theorem single_record_body_witness:
  "fetchAllPages (always JNull) ''/api/x/'' = Some (Inr [JNull], [API_BASE_URL @ ''/api/x/'']) \<and>
   fetchAllPages (always (JNum 7)) ''/api/x/'' = Some (Inr [JNum 7], [API_BASE_URL @ ''/api/x/'']) \<and>
   fetchAllPages (always (JStr ''ok'')) ''/api/x/''
     = Some (Inr [JStr ''ok''], [API_BASE_URL @ ''/api/x/'']) \<and>
   fetchAllPages (always (JObj [(''detail'', JStr ''one'')])) ''/api/x/''
     = Some (Inr [JObj [(''detail'', JStr ''one'')]], [API_BASE_URL @ ''/api/x/''])"
proof -
  have one: "fetchAllPages (always b) ''/api/x/'' = Some (Inr [b], [API_BASE_URL @ ''/api/x/''])"
    if "\<not> is_envelope b" "\<not> isArray (Some b)" for b
    by (rule single_record_body[where r = "\<lparr>status = 200, body = Some b\<rparr>"])
       (simp_all add: always_def ok_def that)
  have "\<not> is_envelope JNull" "\<not> is_envelope (JNum 7)" "\<not> is_envelope (JStr ''ok'')"
    "\<not> is_envelope (JObj [(''detail'', JStr ''one'')])"
    by (simp_all add: is_envelope_def)
  then show ?thesis
    by (simp add: one)
qed

section \<open>The range parameter of the fetch functions\<close>

lemma split_on_not_Nil: "split_on c xs \<noteq> []"
  by (induction xs) (auto split: list.splits)

lemma split_on_append: "split_on c (xs @ c # ys) = split_on c xs @ split_on c ys"
proof (induction xs)
  case Nil
  then show ?case by simp
next
  case (Cons x xs)
  then show ?case
    using split_on_not_Nil[of c xs] by (cases "split_on c xs") auto
qed

lemma split_on_absent: "c \<notin> set xs \<Longrightarrow> split_on c xs = [xs]"
  by (induction xs) auto

lemma query_string_after: "CHR ''?'' \<notin> set pre \<Longrightarrow> query_string (pre @ CHR ''?'' # q) = q"
  by (induction pre) (auto simp: query_string_def)

lemma parse_param_range: "parse_param (''range='' @ t) = (''range'', t)"
  by (simp add: parse_param_def)

lemma range_last:
  assumes "CHR ''?'' \<notin> set pre" "CHR ''&'' \<notin> set t"
  shows "(''range'', t) \<in> set (query_params (pre @ ''?'' @ q @ ''&range='' @ t))"
proof -
  have "query_string (pre @ ''?'' @ q @ ''&range='' @ t) = q @ CHR ''&'' # (''range='' @ t)"
    using query_string_after[OF assms(1)] by simp
  moreover have "split_on CHR ''&'' (q @ CHR ''&'' # (''range='' @ t))
      = split_on CHR ''&'' q @ [''range='' @ t]"
    using assms(2) by (simp only: split_on_append) (simp add: split_on_absent)
  ultimately show ?thesis
    using parse_param_range[of t] by (simp only: query_params_def) (simp del: append.simps)
qed

lemma range_only:
  assumes "CHR ''?'' \<notin> set pre" "CHR ''&'' \<notin> set t"
  shows "(''range'', t) \<in> set (query_params (pre @ ''?'' @ ''range='' @ t))"
proof -
  have "query_string (pre @ ''?'' @ ''range='' @ t) = ''range='' @ t"
    using query_string_after[OF assms(1)] by simp
  moreover have "split_on CHR ''&'' (''range='' @ t) = [''range='' @ t]"
    using assms(2) by (simp add: split_on_absent)
  ultimately show ?thesis
    using parse_param_range[of t] by (simp only: query_params_def) (simp del: append.simps)
qed

lemma metric_url_range:
  assumes "\<not> given fromDate" "\<not> given toDate" "t \<noteq> []"
  shows "\<exists>q. metric_url path userId fromDate toDate (Some t) = path @ ''?'' @ q @ ''&range='' @ t"
  using assms by (auto simp: metric_url_def given_def str_def Let_def)

lemma metric_url_default:
  assumes "\<not> given fromDate" "\<not> given toDate"
  shows "\<exists>q. metric_url path userId fromDate toDate None = path @ ''?'' @ q @ ''&range='' @ ''24h''"
  using assms by (auto simp: metric_url_def given_def str_def Let_def)

lemma token_props: "t \<in> range_tokens \<Longrightarrow> t \<noteq> [] \<and> CHR ''&'' \<notin> set t"
  by (auto simp: range_tokens_def)

lemma metric_url_params:
  assumes "CHR ''?'' \<notin> set path" "\<not> given fromDate" "\<not> given toDate" "t \<in> range_tokens"
  shows "(''range'', t) \<in> set (query_params (metric_url path userId fromDate toDate (Some t))) \<and>
         (''range'', ''24h'') \<in> set (query_params (metric_url path userId fromDate toDate None))"
proof -
  note tok = token_props[OF assms(4)]
  obtain q where "metric_url path userId fromDate toDate (Some t) = path @ ''?'' @ q @ ''&range='' @ t"
    using metric_url_range[OF assms(2,3)] tok by blast
  then have 1: "(''range'', t) \<in> set (query_params (metric_url path userId fromDate toDate (Some t)))"
    using range_last[OF assms(1)] tok by simp
  obtain q' where "metric_url path userId fromDate toDate None
      = path @ ''?'' @ q' @ ''&range='' @ ''24h''"
    using metric_url_default[OF assms(2,3)] by blast
  then have "(''range'', ''24h'') \<in> set (query_params (metric_url path userId fromDate toDate None))"
    using range_last[OF assms(1), of "''24h''" q'] by simp
  with 1 show ?thesis ..
qed

lemma hex_digit_safe: "hex_digit n \<noteq> CHR ''&''"
proof -
  have "hex_digit n \<in> set ''0123456789ABCDEF''"
    unfolding hex_digit_def by (rule nth_mem) simp
  then show ?thesis by auto
qed

lemma urlencode_char_amp: "CHR ''&'' \<notin> set (urlencode_char c)"
  by (auto simp: urlencode_char_def form_safe_def hex_digit_safe[symmetric])

lemma urlencode_amp: "CHR ''&'' \<notin> set (urlencode s)"
  by (induction s) (simp_all add: urlencode_def urlencode_char_amp)

lemma urlencode_token: "t \<in> range_tokens \<Longrightarrow> urlencode t = t"
  by (auto simp: range_tokens_def urlencode_def urlencode_char_def form_safe_def)

lemma steps_range:
  assumes "\<not> given fromDate" "\<not> given toDate" "t \<in> range_tokens"
  shows "(''range'', t) \<in> set (query_params (getStepsData_url userId fromDate toDate (Some t)))"
proof (cases "given userId")
  case True
  have "getStepsData_url userId fromDate toDate (Some t) =
        ''/api/Steps/'' @ ''?'' @ (''user='' @ urlencode (str userId)) @ ''&range='' @ t"
    using assms True token_props[OF assms(3)] urlencode_token[OF assms(3)]
    by (simp add: getStepsData_url_def getStepsData_params_def given_def str_def urlencode_def
        urlencode_char_def form_safe_def)
  then show ?thesis
    using range_last[where pre="''/api/Steps/''" and t=t and q="''user='' @ urlencode (str userId)"]
      token_props[OF assms(3)] by simp
next
  case False
  have "getStepsData_url userId fromDate toDate (Some t) = ''/api/Steps/'' @ ''?'' @ ''range='' @ t"
    using assms False token_props[OF assms(3)] urlencode_token[OF assms(3)]
    by (simp add: getStepsData_url_def getStepsData_params_def given_def str_def urlencode_def
        urlencode_char_def form_safe_def)
  then show ?thesis
    using range_only[of "''/api/Steps/''" t] token_props[OF assms(3)] by simp
qed

lemma activity_range:
  assumes "t \<in> range_tokens"
  shows "(''range'', t) \<in> set (query_params (getDayTotalActivity_url userId (Some t)))"
proof (cases "given userId")
  case True
  have "getDayTotalActivity_url userId (Some t) =
        ''/api/Day_total_activity/'' @ ''?'' @ (''user_id='' @ urlencode (str userId)) @ ''&range='' @ t"
    using assms True token_props[OF assms] urlencode_token[OF assms]
    by (simp add: getDayTotalActivity_url_def getDayTotalActivity_params_def given_def str_def
        urlencode_def urlencode_char_def form_safe_def)
  then show ?thesis
    using range_last[where pre="''/api/Day_total_activity/''" and t=t
        and q="''user_id='' @ urlencode (str userId)"]
      token_props[OF assms] by simp
next
  case False
  have "getDayTotalActivity_url userId (Some t) = ''/api/Day_total_activity/'' @ ''?'' @ ''range='' @ t"
    using assms False token_props[OF assms] urlencode_token[OF assms]
    by (simp add: getDayTotalActivity_url_def getDayTotalActivity_params_def given_def str_def
        urlencode_def urlencode_char_def form_safe_def)
  then show ?thesis
    using range_only[of "''/api/Day_total_activity/''" t] token_props[OF assms] by simp
qed

lemma steps_default:
  assumes "\<not> given fromDate" "\<not> given toDate"
  shows "''range'' \<notin> fst ` set (query_params (getStepsData_url userId fromDate toDate None))"
proof (cases "given userId")
  case True
  have u: "getStepsData_url userId fromDate toDate None
      = ''/api/Steps/'' @ CHR ''?'' # (''user='' @ urlencode (str userId))"
    using assms True
    by (simp add: getStepsData_url_def getStepsData_params_def given_def str_def urlencode_def
        urlencode_char_def form_safe_def)
  have "query_string (getStepsData_url userId fromDate toDate None) = ''user='' @ urlencode (str userId)"
    unfolding u by (rule query_string_after) simp
  moreover have "split_on CHR ''&'' (''user='' @ urlencode (str userId))
      = [''user='' @ urlencode (str userId)]"
    by (rule split_on_absent) (simp add: urlencode_amp)
  ultimately show ?thesis
    by (simp add: query_params_def parse_param_def)
next
  case False
  then have "getStepsData_url userId fromDate toDate None = ''/api/Steps/''"
    using assms by (simp add: getStepsData_url_def getStepsData_params_def given_def)
  then show ?thesis by (simp add: query_params_def query_string_def)
qed

lemma activity_default:
  "''range'' \<notin> fst ` set (query_params (getDayTotalActivity_url userId None))"
proof (cases "given userId")
  case True
  have u: "getDayTotalActivity_url userId None
      = ''/api/Day_total_activity/'' @ CHR ''?'' # (''user_id='' @ urlencode (str userId))"
    using True
    by (simp add: getDayTotalActivity_url_def getDayTotalActivity_params_def given_def str_def
        urlencode_def urlencode_char_def form_safe_def)
  have "query_string (getDayTotalActivity_url userId None) = ''user_id='' @ urlencode (str userId)"
    unfolding u by (rule query_string_after) simp
  moreover have "split_on CHR ''&'' (''user_id='' @ urlencode (str userId))
      = [''user_id='' @ urlencode (str userId)]"
    by (rule split_on_absent) (simp add: urlencode_amp)
  ultimately show ?thesis
    by (simp add: query_params_def parse_param_def)
next
  case False
  then have "getDayTotalActivity_url userId None = ''/api/Day_total_activity/''"
    by (simp add: getDayTotalActivity_url_def getDayTotalActivity_params_def given_def)
  then show ?thesis by (simp add: query_params_def query_string_def)
qed

text \<open>
  Claim C6, as stated, fails for \<open>getStepsData\<close>: called with no user, no dates and no
  token it requests \<open>/api/Steps/\<close>, which carries no \<open>range=24h\<close>.
\<close>

theorem steps_default_range_counterexample:
  "getStepsData_url None None None None = ''/api/Steps/'' \<and>
   (''range'', ''24h'') \<notin> set (query_params (getStepsData_url None None None None))"
  by (simp add: getStepsData_url_def getStepsData_params_def given_def query_params_def
      query_string_def)

text \<open>
  Claim C6, amended. With no usable \<open>from\<close> and \<open>to\<close> dates and a token \<open>t\<close> among
  \<open>24h\<close>, \<open>7d\<close>, \<open>30d\<close>: the six fetch functions built on \<open>fetchAllPages\<close> (sleep, SpO2,
  heart rate, blood pressure, stress, HRV) request a URL with the parameter \<open>range=t\<close>, and
  with no token a URL with \<open>range=24h\<close>; \<open>getStepsData\<close> and \<open>getDayTotalActivity\<close> request
  a URL with \<open>range=t\<close> for the token, and with no token a URL with no \<open>range\<close> parameter
  at all.
\<close>

theorem range_parameter:
  assumes "t \<in> range_tokens" "\<not> given fromDate" "\<not> given toDate"
  shows "(\<forall>url_of \<in> {getSleepData_url, getSpO2Data_url, getHeartRateData_url,
                      getBloodPressureData_url, getStressData_url, getHRVData_url}.
            (''range'', t) \<in> set (query_params (url_of userId fromDate toDate (Some t))) \<and>
            (''range'', ''24h'') \<in> set (query_params (url_of userId fromDate toDate None))) \<and>
         (''range'', t) \<in> set (query_params (getStepsData_url userId fromDate toDate (Some t))) \<and>
         (''range'', t) \<in> set (query_params (getDayTotalActivity_url userId (Some t))) \<and>
         ''range'' \<notin> fst ` set (query_params (getStepsData_url userId fromDate toDate None)) \<and>
         ''range'' \<notin> fst ` set (query_params (getDayTotalActivity_url userId None))"
proof -
  have six: "\<forall>url_of \<in> {getSleepData_url, getSpO2Data_url, getHeartRateData_url,
                      getBloodPressureData_url, getStressData_url, getHRVData_url}.
            (''range'', t) \<in> set (query_params (url_of userId fromDate toDate (Some t))) \<and>
            (''range'', ''24h'') \<in> set (query_params (url_of userId fromDate toDate None))"
    unfolding getSleepData_url_def getSpO2Data_url_def getHeartRateData_url_def
      getBloodPressureData_url_def getStressData_url_def getHRVData_url_def
    using assms by (intro ballI) (auto intro!: metric_url_params[THEN conjunct1] metric_url_params[THEN conjunct2])
  show ?thesis
    using six steps_range[OF assms(2,3,1)] activity_range[OF assms(1)]
      steps_default[OF assms(2,3)] activity_default by blast
qed

text \<open>
  The heart-rate fetch for user \<open>u1\<close> asks for \<open>range=7d\<close> when given that token and for
  \<open>range=24h\<close> when given none; the activity fetch with no token asks for
  \<open>/api/Day_total_activity/?user_id=u1\<close>.
\<close>

theorem range_parameter_witness:
  "(''range'', ''7d'') \<in> set (query_params (getHeartRateData_url (Some ''u1'') None None (Some ''7d''))) \<and>
   (''range'', ''24h'') \<in> set (query_params (getHeartRateData_url (Some ''u1'') None None None)) \<and>
   (''range'', ''7d'') \<in> set (query_params (getStepsData_url (Some ''u1'') None None (Some ''7d''))) \<and>
   ''range'' \<notin> fst ` set (query_params (getDayTotalActivity_url (Some ''u1'') None))"
proof -
  have token: "''7d'' \<in> range_tokens"
    by (simp add: range_tokens_def)
  have no_date: "\<not> given None"
    by (simp add: given_def)
  show ?thesis
    using range_parameter[OF token no_date no_date, of "Some ''u1''"] by simp
qed

section \<open>The panel: cache, cancellation and errors\<close>

lemma cache_put_other:
  "k' \<noteq> key \<Longrightarrow> cache_get (cache_put c k' v' t') key now = cache_get c key now"
  by (simp add: cache_get_def cache_put_def)

lemma cache_puts_other:
  "\<forall>(k', v', t') \<in> set puts. k' \<noteq> key \<Longrightarrow>
   cache_get (foldl (\<lambda>c (k', v', t'). cache_put c k' v' t') c puts) key now = cache_get c key now"
  by (induction puts arbitrary: c) (auto simp: cache_put_other)

lemma cache_miss_later: "cache_get c key t1 = None \<Longrightarrow> t1 \<le> t2 \<Longrightarrow> cache_get c key t2 = None"
  by (auto simp: cache_get_def split: option.splits if_splits)

lemma fetch_begin_cache: "cacheRef (fst (fetch_begin api pr now p)) = cacheRef p"
  by (auto simp: fetch_begin_def catch_block_def finally_block_def abort_current_def Let_def
      split: sum.splits option.splits)

lemma fetch_begin_request:
  "request_params api pr = Inr rq \<Longrightarrow>
   snd (fetch_begin api pr now p)
     = (if cache_get (cacheRef p) (req_cacheKey rq) now = None then Some rq else None)"
  by (auto simp: fetch_begin_def abort_current_def Let_def split: option.splits)

lemma fetch_begin_pending:
  assumes "fetch_begin api pr t1 p0 = (p1, Some rq)"
  shows "request_params api pr = Inr rq \<and> cache_get (cacheRef p0) (req_cacheKey rq) t1 = None \<and>
         p1 = p0\<lparr>abortControllerRef := Some False, loading := True, error := None\<rparr>"
  using assms
  by (auto simp: fetch_begin_def abort_current_def Let_def split: sum.splits option.splits)

lemma fetch_begin_hit:
  assumes "request_params api pr = Inr rq" "cache_get (cacheRef q) (req_cacheKey rq) now = Some d"
    and "isMountedRef q"
  shows "fetch_begin api pr now q =
     (q\<lparr>abortControllerRef := Some False, error := None, heartRateData := d,
        onHeartRateDataUpdate := onHeartRateDataUpdate q @ [d], loading := False\<rparr>, None)"
  using assms
  by (simp add: fetch_begin_def finally_block_def abort_current_def Let_def split: option.splits)

lemma fetch_begin_miss:
  assumes "request_params api pr = Inr rq" "cache_get (cacheRef q) (req_cacheKey rq) now = None"
  shows "fetch_begin api pr now q =
     (q\<lparr>abortControllerRef := Some False, loading := True, error := None\<rparr>, Some rq)"
  using assms by (simp add: fetch_begin_def abort_current_def Let_def split: option.splits)

lemma fetch_resume_stores:
  assumes "isMountedRef q" "abortControllerRef q = Some False" "data \<noteq> []"
  shows "fetch_resume api rq (Inr data) t0 q =
     q\<lparr>cacheRef := cache_put (cacheRef q) (req_cacheKey rq) (sort_by_date api data) t0,
       heartRateData := sort_by_date api data,
       onHeartRateDataUpdate := onHeartRateDataUpdate q @ [sort_by_date api data],
       loading := False\<rparr>"
  using assms by (simp add: fetch_resume_def try_resolved_def finally_block_def Let_def)

lemma request_params_today: "request_params example_api props_today = Inr request_today"
  by (simp add: request_params_def props_today_def request_today_def period_range_def
      user_key_def given_def str_def)

lemma request_params_week: "request_params example_api props_week = Inr request_week"
  by (simp add: request_params_def props_week_def request_week_def period_range_def
      user_key_def given_def str_def)

lemma effect_today:
  "effect example_api props_today 0 initial_panel
     = (initial_panel\<lparr>abortControllerRef := Some False\<rparr>, Some request_today)"
  by (simp add: effect_def fetch_begin_def request_params_today abort_current_def
      initial_panel_def cache_get_def Let_def)

lemma fetching_today_eq: "fetching_today = initial_panel\<lparr>abortControllerRef := Some False\<rparr>"
  by (simp add: fetching_today_def run_def effect_today)

lemma effect_week:
  "effect example_api props_week 10 (cleanup fetching_today)
     = (initial_panel\<lparr>abortControllerRef := Some False\<rparr>, Some request_week)"
  by (simp add: fetching_today_eq effect_def cleanup_def fetch_begin_def request_params_week
      abort_current_def initial_panel_def cache_get_def Let_def)

lemma fetching_week_eq: "fetching_week = initial_panel\<lparr>abortControllerRef := Some False\<rparr>"
  using effect_today effect_week
  by (simp add: fetching_week_def fetching_today_def run_def)

lemma showing_no_data_eq:
  "showing_no_data = fetch_resume example_api request_today (Inr []) 1000 fetching_today"
  by (simp add: showing_no_data_def fetching_today_def run_def)

lemma showing_readings_eq:
  "showing_readings = fetch_resume example_api request_today
     (Inr [beat ''2026-01-01T08:00:00Z'' 72, beat ''2026-01-01T07:00:00Z'' 64]) 1000 fetching_today"
  by (simp add: showing_readings_def fetching_today_def run_def)

lemma two_readings_sorted:
  "sort_by_date example_api [beat ''2026-01-01T08:00:00Z'' 72, beat ''2026-01-01T07:00:00Z'' 64]
     = [beat ''2026-01-01T07:00:00Z'' 64, beat ''2026-01-01T08:00:00Z'' 72]"
  by (simp add: sort_by_date_def example_api_def beat_def)

text \<open>
  In every state a panel instance reaches, a mounted panel's current controller is not
  aborted: the cleanup that aborts it also clears \<open>isMountedRef\<close>, and the effect that sets
  \<open>isMountedRef\<close> again starts a fetch, which installs a new controller.
\<close>

lemma step_not_aborted:
  assumes "isMountedRef p \<longrightarrow> abortControllerRef p \<noteq> Some True"
  shows "isMountedRef (step api p ev) \<longrightarrow> abortControllerRef (step api p ev) \<noteq> Some True"
  using assms
  by (cases ev)
     (auto simp: effect_def cleanup_def fetch_begin_def fetch_resume_def try_resolved_def
        catch_block_def finally_block_def abort_current_def Let_def
        split: sum.splits option.splits if_splits prod.splits)

lemma run_not_aborted:
  "isMountedRef (run api events) \<longrightarrow> abortControllerRef (run api events) \<noteq> Some True"
proof (induction events rule: rev_induct)
  case Nil
  then show ?case by (simp add: run_def initial_panel_def)
next
  case (snoc ev events)
  then show ?case
    using step_not_aborted[of "run api events" api ev] by (simp add: run_def)
qed

text \<open>
  Claim C5. For the cache as a map: after \<open>put(key, v)\<close> at time \<open>t0\<close>, followed by any puts
  under other keys, a \<open>get(key)\<close> less than five minutes after \<open>t0\<close> returns \<open>v\<close>, so two
  such gets both do, and a \<open>get(key)\<close> five minutes or more after \<open>t0\<close> reports absent.
  For the panel that owns the cache: the check in \<open>fetchHeartRateData\<close> leaves the cache as
  it is and the call goes to the network exactly when the check reports absent; the put is
  what a resolved fetch with records does, storing the sorted records under the call's key
  with the time of the resolution; a fresh entry is handed to the panel, which holds it as
  its series, passes it to the parent, turns loading off and issues no request. So after a
  fetch issued by a mounted panel has resolved with records at \<open>t0\<close>, two refreshes in a row
  with the same props less than five minutes after \<open>t0\<close> both serve the sorted records with
  no request, and a refresh five minutes or more after \<open>t0\<close> issues the request again.
\<close>

theorem cache_ttl:
  assumes "\<forall>(k', v', t') \<in> set puts. k' \<noteq> key"
  shows "(now1 - t0 < 5 * 60 * 1000 \<and> now2 - t0 < 5 * 60 * 1000 \<longrightarrow>
            cache_get (foldl (\<lambda>c (k', v', t'). cache_put c k' v' t') (cache_put c key v t0) puts)
              key now1 = Some v \<and>
            cache_get (foldl (\<lambda>c (k', v', t'). cache_put c k' v' t') (cache_put c key v t0) puts)
              key now2 = Some v) \<and>
         (5 * 60 * 1000 \<le> now1 - t0 \<longrightarrow>
            cache_get (foldl (\<lambda>c (k', v', t'). cache_put c k' v' t') (cache_put c key v t0) puts)
              key now1 = None) \<and>
         cacheRef (fst (fetch_begin api pr now1 p)) = cacheRef p \<and>
         (request_params api pr = Inr rq \<longrightarrow>
            snd (fetch_begin api pr now1 p)
              = (if cache_get (cacheRef p) (req_cacheKey rq) now1 = None then Some rq else None)) \<and>
         (isMountedRef p \<and> abortControllerRef p = Some False \<and> data \<noteq> [] \<longrightarrow>
            cacheRef (fetch_resume api rq (Inr data) t0 p)
              = cache_put (cacheRef p) (req_cacheKey rq) (sort_by_date api data) t0) \<and>
         (request_params api pr = Inr rq \<and> isMountedRef p \<and>
          cache_get (cacheRef p) (req_cacheKey rq) now1 = Some v \<longrightarrow>
            fetch_begin api pr now1 p =
              (p\<lparr>abortControllerRef := Some False, error := None, heartRateData := v,
                 onHeartRateDataUpdate := onHeartRateDataUpdate p @ [v], loading := False\<rparr>, None)) \<and>
         (fetch_begin api pr t1 p0 = (p1, Some rq) \<and> isMountedRef p0 \<and> data \<noteq> [] \<longrightarrow>
            (now1 - t0 < 5 * 60 * 1000 \<and> now2 - t0 < 5 * 60 * 1000 \<longrightarrow>
               snd (fetch_begin api pr now1 (fetch_resume api rq (Inr data) t0 p1)) = None \<and>
               heartRateData (fst (fetch_begin api pr now1 (fetch_resume api rq (Inr data) t0 p1)))
                 = sort_by_date api data \<and>
               onHeartRateDataUpdate (fst (fetch_begin api pr now1 (fetch_resume api rq (Inr data) t0 p1)))
                 = onHeartRateDataUpdate p0 @ [sort_by_date api data, sort_by_date api data] \<and>
               snd (fetch_begin api pr now2
                     (fst (fetch_begin api pr now1 (fetch_resume api rq (Inr data) t0 p1)))) = None \<and>
               heartRateData (fst (fetch_begin api pr now2
                     (fst (fetch_begin api pr now1 (fetch_resume api rq (Inr data) t0 p1)))))
                 = sort_by_date api data) \<and>
            (5 * 60 * 1000 \<le> now1 - t0 \<longrightarrow>
               snd (fetch_begin api pr now1 (fetch_resume api rq (Inr data) t0 p1)) = Some rq))"
proof -
  have helpers: "(now1 - t0 < 5 * 60 * 1000 \<and> now2 - t0 < 5 * 60 * 1000 \<longrightarrow>
            cache_get (foldl (\<lambda>c (k', v', t'). cache_put c k' v' t') (cache_put c key v t0) puts)
              key now1 = Some v \<and>
            cache_get (foldl (\<lambda>c (k', v', t'). cache_put c k' v' t') (cache_put c key v t0) puts)
              key now2 = Some v) \<and>
         (5 * 60 * 1000 \<le> now1 - t0 \<longrightarrow>
            cache_get (foldl (\<lambda>c (k', v', t'). cache_put c k' v' t') (cache_put c key v t0) puts)
              key now1 = None)"
    using assms by (simp add: cache_puts_other) (simp add: cache_get_def cache_put_def)
  have check: "cacheRef (fst (fetch_begin api pr now1 p)) = cacheRef p \<and>
         (request_params api pr = Inr rq \<longrightarrow>
            snd (fetch_begin api pr now1 p)
              = (if cache_get (cacheRef p) (req_cacheKey rq) now1 = None then Some rq else None))"
    by (simp add: fetch_begin_cache fetch_begin_request)
  have store: "isMountedRef p \<and> abortControllerRef p = Some False \<and> data \<noteq> [] \<longrightarrow>
            cacheRef (fetch_resume api rq (Inr data) t0 p)
              = cache_put (cacheRef p) (req_cacheKey rq) (sort_by_date api data) t0"
    by (simp add: fetch_resume_stores)
  have hit: "request_params api pr = Inr rq \<and> isMountedRef p \<and>
          cache_get (cacheRef p) (req_cacheKey rq) now1 = Some v \<longrightarrow>
            fetch_begin api pr now1 p =
              (p\<lparr>abortControllerRef := Some False, error := None, heartRateData := v,
                 onHeartRateDataUpdate := onHeartRateDataUpdate p @ [v], loading := False\<rparr>, None)"
    by (simp add: fetch_begin_hit)
  have panel: "fetch_begin api pr t1 p0 = (p1, Some rq) \<and> isMountedRef p0 \<and> data \<noteq> [] \<longrightarrow>
            (now1 - t0 < 5 * 60 * 1000 \<and> now2 - t0 < 5 * 60 * 1000 \<longrightarrow>
               snd (fetch_begin api pr now1 (fetch_resume api rq (Inr data) t0 p1)) = None \<and>
               heartRateData (fst (fetch_begin api pr now1 (fetch_resume api rq (Inr data) t0 p1)))
                 = sort_by_date api data \<and>
               onHeartRateDataUpdate (fst (fetch_begin api pr now1 (fetch_resume api rq (Inr data) t0 p1)))
                 = onHeartRateDataUpdate p0 @ [sort_by_date api data, sort_by_date api data] \<and>
               snd (fetch_begin api pr now2
                     (fst (fetch_begin api pr now1 (fetch_resume api rq (Inr data) t0 p1)))) = None \<and>
               heartRateData (fst (fetch_begin api pr now2
                     (fst (fetch_begin api pr now1 (fetch_resume api rq (Inr data) t0 p1)))))
                 = sort_by_date api data) \<and>
            (5 * 60 * 1000 \<le> now1 - t0 \<longrightarrow>
               snd (fetch_begin api pr now1 (fetch_resume api rq (Inr data) t0 p1)) = Some rq)"
  proof (intro impI, elim conjE)
    assume issued: "fetch_begin api pr t1 p0 = (p1, Some rq)" and m: "isMountedRef p0" and ne: "data \<noteq> []"
    note pend = fetch_begin_pending[OF issued]
    let ?s = "sort_by_date api data"
    let ?p2 = "fetch_resume api rq (Inr data) t0 p1"
    have p2: "?p2 = p1\<lparr>cacheRef := cache_put (cacheRef p1) (req_cacheKey rq) ?s t0,
       heartRateData := ?s, onHeartRateDataUpdate := onHeartRateDataUpdate p1 @ [?s], loading := False\<rparr>"
      using pend m ne by (intro fetch_resume_stores) simp_all
    have m2: "isMountedRef ?p2" and c2: "cacheRef ?p2 = cache_put (cacheRef p0) (req_cacheKey rq) ?s t0"
      and u2: "onHeartRateDataUpdate ?p2 = onHeartRateDataUpdate p0 @ [?s]"
      unfolding p2 using pend m by simp_all
    have rp: "request_params api pr = Inr rq" using pend by simp
    have fresh: "cache_get (cacheRef ?p2) (req_cacheKey rq) n = Some ?s" if "n - t0 < 5 * 60 * 1000" for n
      using that by (simp add: c2 cache_get_def cache_put_def)
    have stale: "cache_get (cacheRef ?p2) (req_cacheKey rq) n = None" if "5 * 60 * 1000 \<le> n - t0" for n
      using that by (simp add: c2 cache_get_def cache_put_def)
    show "(now1 - t0 < 5 * 60 * 1000 \<and> now2 - t0 < 5 * 60 * 1000 \<longrightarrow>
               snd (fetch_begin api pr now1 ?p2) = None \<and>
               heartRateData (fst (fetch_begin api pr now1 ?p2)) = ?s \<and>
               onHeartRateDataUpdate (fst (fetch_begin api pr now1 ?p2))
                 = onHeartRateDataUpdate p0 @ [?s, ?s] \<and>
               snd (fetch_begin api pr now2 (fst (fetch_begin api pr now1 ?p2))) = None \<and>
               heartRateData (fst (fetch_begin api pr now2 (fst (fetch_begin api pr now1 ?p2)))) = ?s) \<and>
            (5 * 60 * 1000 \<le> now1 - t0 \<longrightarrow> snd (fetch_begin api pr now1 ?p2) = Some rq)"
    proof (intro conjI impI)
      assume w: "now1 - t0 < 5 * 60 * 1000 \<and> now2 - t0 < 5 * 60 * 1000"
      note h1 = fetch_begin_hit[OF rp fresh[of now1] m2]
      let ?q = "fst (fetch_begin api pr now1 ?p2)"
      have q: "isMountedRef ?q" "cache_get (cacheRef ?q) (req_cacheKey rq) now2 = Some ?s"
        using w h1 m2 fresh[of now2] by simp_all
      note h2 = fetch_begin_hit[OF rp q(2) q(1)]
      show "snd (fetch_begin api pr now1 ?p2) = None" using w h1 by simp
      show "heartRateData ?q = ?s" using w h1 by simp
      show "onHeartRateDataUpdate ?q = onHeartRateDataUpdate p0 @ [?s, ?s]" using w h1 u2 by simp
      show "snd (fetch_begin api pr now2 ?q) = None" using h2 by simp
      show "heartRateData (fst (fetch_begin api pr now2 ?q)) = ?s" using h2 by simp
    next
      assume "5 * 60 * 1000 \<le> now1 - t0"
      then show "snd (fetch_begin api pr now1 ?p2) = Some rq"
        using fetch_begin_request[OF rp, of now1 ?p2] stale by simp
    qed
  qed
  from helpers check store hit panel show ?thesis by blast
qed

text \<open>
  The map: a reading stored under \<open>u1-24h\<close> at time 0, then a put under \<open>u1-7d\<close>; the entry
  is served at 299999 ms and absent at 300000 ms. The panel: the fetch for today resolves
  with two readings at time 1000; they are stored sorted with that time, the refresh at
  300999 serves them with no request, and the refresh at 301000 issues the request.
\<close>

theorem cache_ttl_witness:
  "cache_get (cache_put (cache_put Map.empty ''u1-24h'' [beat ''2026-01-01T08:00:00Z'' 72] 0)
       ''u1-7d'' [beat ''2026-01-01T07:00:00Z'' 64] 1000) ''u1-24h'' 299999
     = Some [beat ''2026-01-01T08:00:00Z'' 72] \<and>
   cache_get (cache_put (cache_put Map.empty ''u1-24h'' [beat ''2026-01-01T08:00:00Z'' 72] 0)
       ''u1-7d'' [beat ''2026-01-01T07:00:00Z'' 64] 1000) ''u1-24h'' 300000
     = None \<and>
   cacheRef showing_readings ''u1-24h''
     = Some ([beat ''2026-01-01T07:00:00Z'' 64, beat ''2026-01-01T08:00:00Z'' 72], 1000) \<and>
   snd (fetch_begin example_api props_today 300999 showing_readings) = None \<and>
   heartRateData (fst (fetch_begin example_api props_today 300999 showing_readings))
     = [beat ''2026-01-01T07:00:00Z'' 64, beat ''2026-01-01T08:00:00Z'' 72] \<and>
   snd (fetch_begin example_api props_today 301000 showing_readings) = Some request_today"
proof -
  let ?data = "[beat ''2026-01-01T08:00:00Z'' 72, beat ''2026-01-01T07:00:00Z'' 64]"
  have others: "\<forall>(k', v', t') \<in> set [(''u1-7d'', [beat ''2026-01-01T07:00:00Z'' 64], 1000)].
      k' \<noteq> ''u1-24h''"
    by simp
  have issued: "fetch_begin example_api props_today 0 initial_panel
      = (fetching_today, Some request_today)"
    using effect_today
    by (simp add: fetching_today_eq) (simp add: effect_def initial_panel_def)
  have mounted: "isMountedRef initial_panel" "isMountedRef fetching_today"
    by (simp_all add: fetching_today_eq initial_panel_def)
  have live: "abortControllerRef fetching_today = Some False"
    by (simp add: fetching_today_eq)
  have records: "?data \<noteq> []"
    by simp
  note law = cache_ttl[OF others, where c = Map.empty and ?t0.0 = 0
      and v = "[beat ''2026-01-01T08:00:00Z'' 72]"]
  note panel = cache_ttl[OF others, where api = example_api and pr = props_today
      and rq = request_today and data = ?data and ?t0.0 = 1000 and ?t1.0 = 0
      and ?p0.0 = initial_panel and ?p1.0 = fetching_today and p = fetching_today]
  have "cacheRef showing_readings
      = cache_put (cacheRef fetching_today) (req_cacheKey request_today)
          (sort_by_date example_api ?data) 1000"
    using panel[of 0 0] mounted live records by (simp add: showing_readings_eq)
  then have stored: "cacheRef showing_readings ''u1-24h''
      = Some ([beat ''2026-01-01T07:00:00Z'' 64, beat ''2026-01-01T08:00:00Z'' 72], 1000)"
    by (simp add: two_readings_sorted cache_put_def request_today_def)
  have fresh: "snd (fetch_begin example_api props_today 300999 showing_readings) = None \<and>
      heartRateData (fst (fetch_begin example_api props_today 300999 showing_readings))
        = [beat ''2026-01-01T07:00:00Z'' 64, beat ''2026-01-01T08:00:00Z'' 72]"
    using panel[of 300999 300999] issued mounted records
    by (simp add: showing_readings_eq two_readings_sorted)
  have stale: "snd (fetch_begin example_api props_today 301000 showing_readings)
      = Some request_today"
    using panel[of 301000 301000] issued mounted records
    by (simp add: showing_readings_eq)
  show ?thesis
    using law[of 299999 299999] law[of 300000 300000] stored fresh stale by simp
qed

text \<open>
  Claim C1 fails on the code. Fetch A is issued for today; the props change, the cleanup
  and the effect run, and fetch B is issued for the week; the panel shows the loading
  state. Then A resolves with one reading: the guard reads \<open>abortControllerRef.current\<close>,
  which is B's controller by now, and \<open>isMountedRef\<close>, which the new effect has set again,
  so A's reading is charted and passed to the parent while B is still in flight. Had A
  been rejected, the panel would show its error.
\<close>

theorem stale_result_applied:
  "snd (effect example_api props_today 0 initial_panel) = Some request_today \<and>
   snd (effect example_api props_week 10 (cleanup fetching_today)) = Some request_week \<and>
   render (run example_api [Effect props_today 0, Cleanup, Effect props_week 10]) = Loading \<and>
   render (run example_api [Effect props_today 0, Cleanup, Effect props_week 10,
        Settled request_today (Inr [beat ''2026-01-01T08:00:00Z'' 72]) 20])
     = Chart [beat ''2026-01-01T08:00:00Z'' 72] \<and>
   onHeartRateDataUpdate (run example_api [Effect props_today 0, Cleanup, Effect props_week 10,
        Settled request_today (Inr [beat ''2026-01-01T08:00:00Z'' 72]) 20])
     = [[beat ''2026-01-01T08:00:00Z'' 72]] \<and>
   render (run example_api [Effect props_today 0, Cleanup, Effect props_week 10,
        Settled request_today (Inl FetchRejected) 20])
     = ErrorWithRetry ''Failed to load heart rate data. Please try again.''"
proof -
  have "run example_api [Effect props_today 0, Cleanup, Effect props_week 10, ev]
      = step example_api fetching_week ev" for ev
    by (simp add: run_def fetching_week_def)
  then show ?thesis
    by (simp add: effect_today effect_week fetching_week_def[symmetric] fetching_week_eq)
       (simp add: render_def initial_panel_def fetch_resume_def try_resolved_def catch_block_def
        finally_block_def is_cancel_def sort_by_date_def cache_put_def Let_def)
qed

text \<open>
  Claim C2, as stated, fails on the code. The mounted panel fetches for today, and the fetch
  resolves with no records at time 1000: nothing is stored under the key \<open>u1-24h\<close>, and the
  refresh at time 2000, one second later, issues the request again.
\<close>

theorem empty_result_cached_counterexample:
  "snd (effect example_api props_today 0 initial_panel) = Some request_today \<and>
   cacheRef showing_no_data ''u1-24h'' = None \<and>
   cache_get (cacheRef showing_no_data) (req_cacheKey request_today) 2000 = None \<and>
   snd (fetch_begin example_api props_today 2000 showing_no_data) = Some request_today"
  by (simp add: effect_today showing_no_data_eq fetching_today_eq)
     (simp add: initial_panel_def fetch_resume_def try_resolved_def finally_block_def
      fetch_begin_def request_params_today request_today_def abort_current_def cache_get_def
      Let_def)

text \<open>
  Claim C2, amended. A call of \<open>fetchHeartRateData\<close> in a mounted panel misses the cache at
  time \<open>t1\<close> and issues its request; when the request resolves with an empty result, the
  panel renders the "no data" state, holds the empty series, passes the empty series to the
  parent, and leaves the cache as it was: the empty result is not stored. A refresh with the
  same props at any later time \<open>t3\<close> issues the request again.
\<close>

theorem empty_result_refetched:
  assumes "fetch_begin api pr t1 p0 = (p1, Some rq)" "isMountedRef p0" "t1 \<le> t3"
  shows "render (fetch_resume api rq (Inr []) t2 p1) = NoData \<and>
         heartRateData (fetch_resume api rq (Inr []) t2 p1) = [] \<and>
         onHeartRateDataUpdate (fetch_resume api rq (Inr []) t2 p1)
           = onHeartRateDataUpdate p0 @ [[]] \<and>
         cacheRef (fetch_resume api rq (Inr []) t2 p1) = cacheRef p0 \<and>
         snd (fetch_begin api pr t3 (fetch_resume api rq (Inr []) t2 p1)) = Some rq"
proof -
  note pend = fetch_begin_pending[OF assms(1)]
  let ?p2 = "fetch_resume api rq (Inr []) t2 p1"
  have p2: "?p2 = p0\<lparr>abortControllerRef := Some False, loading := False, error := None,
                     heartRateData := [], onHeartRateDataUpdate := onHeartRateDataUpdate p0 @ [[]]\<rparr>"
    using pend assms(2) by (simp add: fetch_resume_def try_resolved_def finally_block_def)
  have miss: "cache_get (cacheRef p0) (req_cacheKey rq) t3 = None"
    using pend assms(3) cache_miss_later by blast
  have "snd (fetch_begin api pr t3 ?p2) = Some rq"
    unfolding p2 using pend miss by (simp add: fetch_begin_def abort_current_def Let_def)
  then show ?thesis
    unfolding p2 by (simp add: render_def)
qed

text \<open>The fetch for today in the fresh panel: "no data" at time 1000, and a request again at time 2000.\<close>

theorem empty_result_refetched_witness:
  "render showing_no_data = NoData \<and>
   snd (fetch_begin example_api props_today 2000 showing_no_data) = Some request_today"
proof -
  have issued: "fetch_begin example_api props_today 0 initial_panel = (fetching_today, Some request_today)"
    using effect_today
    by (simp add: fetching_today_eq) (simp add: effect_def initial_panel_def)
  have mounted: "isMountedRef initial_panel"
    by (simp add: initial_panel_def)
  have later: "(0::int) \<le> 2000"
    by simp
  show ?thesis
    using empty_result_refetched[OF issued mounted later, of 1000]
    by (simp add: showing_no_data_eq)
qed

text \<open>
  Claim C9. In any state a mounted panel has reached, when \<open>getHeartRateData\<close> rejects with
  an error that is not a cancellation, \<open>fetchHeartRateData\<close> ends normally in the error
  state with its Retry button: the message is set, loading is off, and the series, the
  cache and the calls of \<open>onHeartRateDataUpdate\<close> are as before. In any state at all, a
  settled call invokes the callback only when the fetch resolved, and a starting call only
  with the data of a fresh cache entry. A click on Retry in the error state runs
  \<open>fetchHeartRateData\<close> from its start: when the cache has no fresh entry for the key of
  the props, the request is issued, the error is cleared and the panel renders the
  loading state, still without a call of the callback; when it has one, the panel holds
  the cached series, passes it to the parent, and issues no request.
\<close>

theorem fetch_error_caught:
  assumes "\<not> is_cancel e" "p = run api events" "isMountedRef p"
  shows "error (fetch_resume api rq (Inl e) now p)
           = Some ''Failed to load heart rate data. Please try again.'' \<and>
         loading (fetch_resume api rq (Inl e) now p) = False \<and>
         render (fetch_resume api rq (Inl e) now p)
           = ErrorWithRetry ''Failed to load heart rate data. Please try again.'' \<and>
         onHeartRateDataUpdate (fetch_resume api rq (Inl e) now p) = onHeartRateDataUpdate p \<and>
         heartRateData (fetch_resume api rq (Inl e) now p) = heartRateData p \<and>
         cacheRef (fetch_resume api rq (Inl e) now p) = cacheRef p \<and>
         (\<forall>q result. onHeartRateDataUpdate (fetch_resume api rq result now q)
              \<noteq> onHeartRateDataUpdate q \<longrightarrow> (\<exists>data. result = Inr data)) \<and>
         (\<forall>q pr. onHeartRateDataUpdate (fst (fetch_begin api pr now q)) \<noteq> onHeartRateDataUpdate q
            \<longrightarrow> (\<exists>rq' data. request_params api pr = Inr rq' \<and>
                   cache_get (cacheRef q) (req_cacheKey rq') now = Some data \<and>
                   onHeartRateDataUpdate (fst (fetch_begin api pr now q))
                     = onHeartRateDataUpdate q @ [data])) \<and>
         run api (events @ [Settled rq (Inl e) now, Retry pr later])
           = fst (fetch_begin api pr later (fetch_resume api rq (Inl e) now p)) \<and>
         (request_params api pr = Inr rq' \<and> cache_get (cacheRef p) (req_cacheKey rq') later = None \<longrightarrow>
            snd (fetch_begin api pr later (fetch_resume api rq (Inl e) now p)) = Some rq' \<and>
            render (run api (events @ [Settled rq (Inl e) now, Retry pr later])) = Loading \<and>
            error (run api (events @ [Settled rq (Inl e) now, Retry pr later])) = None \<and>
            onHeartRateDataUpdate (run api (events @ [Settled rq (Inl e) now, Retry pr later]))
              = onHeartRateDataUpdate p) \<and>
         (request_params api pr = Inr rq' \<and> cache_get (cacheRef p) (req_cacheKey rq') later = Some cached \<longrightarrow>
            snd (fetch_begin api pr later (fetch_resume api rq (Inl e) now p)) = None \<and>
            heartRateData (run api (events @ [Settled rq (Inl e) now, Retry pr later])) = cached \<and>
            loading (run api (events @ [Settled rq (Inl e) now, Retry pr later])) = False \<and>
            error (run api (events @ [Settled rq (Inl e) now, Retry pr later])) = None \<and>
            onHeartRateDataUpdate (run api (events @ [Settled rq (Inl e) now, Retry pr later]))
              = onHeartRateDataUpdate p @ [cached])"
proof -
  let ?p' = "fetch_resume api rq (Inl e) now p"
  let ?r = "run api (events @ [Settled rq (Inl e) now, Retry pr later])"
  have live: "abortControllerRef p \<noteq> Some True"
    using assms(2,3) run_not_aborted by blast
  have settled: "\<forall>q result. onHeartRateDataUpdate (fetch_resume api rq result now q)
              \<noteq> onHeartRateDataUpdate q \<longrightarrow> (\<exists>data. result = Inr data)"
    by (auto simp: fetch_resume_def catch_block_def finally_block_def split: sum.splits)
  have start: "\<forall>q pr. onHeartRateDataUpdate (fst (fetch_begin api pr now q)) \<noteq> onHeartRateDataUpdate q
            \<longrightarrow> (\<exists>rq' data. request_params api pr = Inr rq' \<and>
                   cache_get (cacheRef q) (req_cacheKey rq') now = Some data \<and>
                   onHeartRateDataUpdate (fst (fetch_begin api pr now q))
                     = onHeartRateDataUpdate q @ [data])"
    by (auto simp: fetch_begin_def catch_block_def finally_block_def abort_current_def Let_def
        split: sum.splits option.splits if_splits)
  have p': "?p' = p\<lparr>error := Some ''Failed to load heart rate data. Please try again.'',
                     loading := False\<rparr>"
    using assms(1,3) live by (simp add: fetch_resume_def catch_block_def finally_block_def)
  have r: "?r = fst (fetch_begin api pr later ?p')"
    by (simp add: run_def assms(2))
  have miss: "snd (fetch_begin api pr later ?p') = Some rq' \<and> render ?r = Loading \<and>
      error ?r = None \<and> onHeartRateDataUpdate ?r = onHeartRateDataUpdate p"
    if "request_params api pr = Inr rq'" "cache_get (cacheRef p) (req_cacheKey rq') later = None"
    unfolding r using fetch_begin_miss[OF that(1), of ?p' later] that(2)
    by (simp add: p' render_def)
  have hit: "snd (fetch_begin api pr later ?p') = None \<and> heartRateData ?r = cached \<and>
      loading ?r = False \<and> error ?r = None \<and>
      onHeartRateDataUpdate ?r = onHeartRateDataUpdate p @ [cached]"
    if "request_params api pr = Inr rq'" "cache_get (cacheRef p) (req_cacheKey rq') later = Some cached"
    unfolding r using fetch_begin_hit[OF that(1), of ?p' later cached] that(2) assms(3)
    by (simp add: p')
  show ?thesis
    using p' r miss hit settled start by (simp add: render_def)
qed

text \<open>
  The fetch of the fresh panel is rejected with status 500: the error state, and no call of
  the callback. The click on Retry at time 2000 issues the request for today again and the
  panel shows the loading state.
\<close>

theorem fetch_error_caught_witness:
  "render (run example_api [Effect props_today 0,
       Settled request_today (Inl (FailedToFetchData 500)) 1000])
     = ErrorWithRetry ''Failed to load heart rate data. Please try again.'' \<and>
   onHeartRateDataUpdate (run example_api [Effect props_today 0,
       Settled request_today (Inl (FailedToFetchData 500)) 1000]) = [] \<and>
   snd (fetch_begin example_api props_today 2000
       (run example_api [Effect props_today 0,
          Settled request_today (Inl (FailedToFetchData 500)) 1000])) = Some request_today \<and>
   render (run example_api [Effect props_today 0,
       Settled request_today (Inl (FailedToFetchData 500)) 1000, Retry props_today 2000])
     = Loading"
proof -
  have settled: "run example_api [Effect props_today 0,
       Settled request_today (Inl (FailedToFetchData 500)) 1000]
     = fetch_resume example_api request_today (Inl (FailedToFetchData 500)) 1000 fetching_today"
    by (simp add: run_def fetching_today_def)
  have failure: "\<not> is_cancel (FailedToFetchData 500)"
    by (simp add: is_cancel_def)
  have reached: "fetching_today = run example_api [Effect props_today 0]"
    by (simp add: fetching_today_def)
  have mounted: "isMountedRef fetching_today"
    by (simp add: fetching_today_eq initial_panel_def)
  have miss: "cache_get (cacheRef fetching_today) (req_cacheKey request_today) 2000 = None"
    by (simp add: fetching_today_eq initial_panel_def cache_get_def)
  note caught = fetch_error_caught[OF failure reached mounted, where rq = request_today
      and now = 1000 and pr = props_today and later = 2000 and rq' = request_today]
  have "error (fetch_resume example_api request_today (Inl (FailedToFetchData 500)) 1000
        fetching_today) = Some ''Failed to load heart rate data. Please try again.'' \<and>
      render (fetch_resume example_api request_today (Inl (FailedToFetchData 500)) 1000
        fetching_today) = ErrorWithRetry ''Failed to load heart rate data. Please try again.'' \<and>
      onHeartRateDataUpdate (fetch_resume example_api request_today
        (Inl (FailedToFetchData 500)) 1000 fetching_today) = onHeartRateDataUpdate fetching_today \<and>
      snd (fetch_begin example_api props_today 2000
        (fetch_resume example_api request_today (Inl (FailedToFetchData 500)) 1000
          fetching_today)) = Some request_today \<and>
      render (run example_api ([Effect props_today 0] @
        [Settled request_today (Inl (FailedToFetchData 500)) 1000, Retry props_today 2000]))
        = Loading"
    using caught request_params_today miss by blast
  then show ?thesis
    by (simp add: settled) (simp add: fetching_today_eq initial_panel_def)
qed

section \<open>Statistics and chart data: properties\<close>

text \<open>
  Claim C7. On the empty array and on \<open>null\<close> the averages are 0 and the minimum and maximum
  are both 0; the functions are total, so nothing is thrown.
\<close>

theorem empty_statistics:
  "calculateAverageHeartRate (Some []) = 0 \<and> calculateAverageHeartRate None = 0 \<and>
   calculateMinMaxHeartRate (Some []) = \<lparr>min_of = 0, max_of = 0\<rparr> \<and>
   calculateMinMaxHeartRate None = \<lparr>min_of = 0, max_of = 0\<rparr> \<and>
   calculateAverageSpO2 (Some []) = 0 \<and> calculateAverageSpO2 None = 0 \<and>
   calculateMinMaxSpO2 (Some []) = \<lparr>min_of = 0, max_of = 0\<rparr> \<and>
   calculateMinMaxSpO2 None = \<lparr>min_of = 0, max_of = 0\<rparr> \<and>
   calculateAverageStress (Some []) = 0 \<and> calculateAverageStress None = 0 \<and>
   calculateAverageHRV (Some []) = 0 \<and> calculateAverageHRV None = 0"
  by (simp add: calculateAverageHeartRate_def calculateMinMaxHeartRate_def
      calculateAverageSpO2_def calculateMinMaxSpO2_def calculateAverageStress_def
      calculateAverageHRV_def)

lemma uniqueData_dates: "set (map date (uniqueData seen xs)) = set (map date xs) - set seen"
  by (induction seen xs rule: uniqueData.induct) auto

lemma uniqueData_unseen: "x \<in> set (uniqueData seen xs) \<Longrightarrow> date x \<notin> set seen"
  using uniqueData_dates[of seen xs] by auto

lemma uniqueData_distinct: "distinct (map date (uniqueData seen xs))"
  by (induction seen xs rule: uniqueData.induct) (auto dest: uniqueData_unseen)

lemma uniqueData_first:
  "item \<in> set (uniqueData seen xs) \<Longrightarrow> find (\<lambda>x. date x = date item) xs = Some item"
proof (induction seen xs rule: uniqueData.induct)
  case (1 seenDates)
  then show ?case by simp
next
  case (2 seenDates y ys)
  show ?case
  proof (cases "date y \<in> set seenDates")
    case True
    with 2 have in_rest: "item \<in> set (uniqueData seenDates ys)" by simp
    then have "date item \<notin> set seenDates" by (rule uniqueData_unseen)
    with True have "date y \<noteq> date item" by auto
    with 2 True in_rest show ?thesis by simp
  next
    case False
    show ?thesis
    proof (cases "item = y")
      case True
      then show ?thesis by simp
    next
      case ne: False
      with 2 False have in_rest: "item \<in> set (uniqueData (date y # seenDates) ys)" by simp
      then have "date item \<notin> set (date y # seenDates)" by (rule uniqueData_unseen)
      then have "date item \<noteq> date y" by simp
      with 2 False in_rest show ?thesis by simp
    qed
  qed
qed

lemma sort_by_date_mset: "mset (sort_by_date api xs) = mset xs"
  by (simp add: sort_by_date_def)

lemma sort_by_date_set: "set (sort_by_date api xs) = set xs"
  by (simp add: sort_by_date_def)

lemma sort_by_date_sorted: "sorted (map (\<lambda>a. getTime api (date a)) (sort_by_date api xs))"
  by (simp add: sort_by_date_def)

lemma sort_by_date_distinct:
  assumes "distinct (map date xs)"
  shows "distinct (map date (sort_by_date api xs))"
proof -
  have "mset (map date (sort_by_date api xs)) = mset (map date xs)"
    by (simp add: sort_by_date_mset)
  then show ?thesis using assms by (metis mset_eq_imp_distinct_iff)
qed

lemma processSpO2Data_eq:
  "processSpO2Data api (Some xs) =
     map (\<lambda>item. \<lparr>time = toLocaleTimeString api (date item), point_value = Blood_oxygen item,
                   fullTime = toLocaleString api True (date item), point_date = date item\<rparr>)
       (sort_by_date api (uniqueData [] xs))"
  by (cases xs) (simp_all add: processSpO2Data_def sort_by_date_def)

text \<open>
  Claim C8. The points \<open>processSpO2Data\<close> makes have pairwise different dates, cover exactly
  the dates of the input, are in ascending order of time, and each one is made from the
  first record of the input with its date: records with the date of an earlier record are
  dropped, then the rest is sorted. The heart-rate, blood-pressure, HRV and stress panels
  make one point per record, in the order of the records, and the sort of the heart-rate
  panel keeps every record, so none of them removes a duplicate date.
\<close>

theorem spo2_deduplicates:
  "distinct (map point_date (processSpO2Data api (Some data))) \<and>
   set (map point_date (processSpO2Data api (Some data))) = set (map date data) \<and>
   sorted (map (\<lambda>pt. getTime api (point_date pt)) (processSpO2Data api (Some data))) \<and>
   (\<forall>pt \<in> set (processSpO2Data api (Some data)).
      \<exists>item. find (\<lambda>x. date x = point_date pt) data = Some item \<and>
             point_value pt = Blood_oxygen item) \<and>
   map point_date (processHeartRateData api (Some hr)) = map date hr \<and>
   map bp_date (processBPData api (Some bp)) = map date bp \<and>
   map point_date (processHRVData api (Some hv)) = map date hv \<and>
   map point_date (processStressData api (Some st)) = map date st \<and>
   mset (sort_by_date api hr) = mset hr"
proof -
  let ?u = "sort_by_date api (uniqueData [] data)"
  have d: "map point_date (processSpO2Data api (Some data)) = map date ?u"
    by (simp add: processSpO2Data_eq comp_def)
  have 1: "distinct (map point_date (processSpO2Data api (Some data)))"
    unfolding d by (rule sort_by_date_distinct) (rule uniqueData_distinct)
  have "set (map date ?u) = date ` set (uniqueData [] data)"
    by (simp add: sort_by_date_set)
  also have "\<dots> = set (map date data)"
    using uniqueData_dates[of "[]" data] by simp
  finally have 2: "set (map point_date (processSpO2Data api (Some data))) = set (map date data)"
    unfolding d .
  have 3: "sorted (map (\<lambda>pt. getTime api (point_date pt)) (processSpO2Data api (Some data)))"
    using sort_by_date_sorted[of api "uniqueData [] data"]
    by (simp add: processSpO2Data_eq comp_def)
  have 4: "\<forall>pt \<in> set (processSpO2Data api (Some data)).
      \<exists>item. find (\<lambda>x. date x = point_date pt) data = Some item \<and>
             point_value pt = Blood_oxygen item"
  proof
    fix pt assume "pt \<in> set (processSpO2Data api (Some data))"
    then obtain item where i: "item \<in> set (uniqueData [] data)"
      and pt: "point_date pt = date item" "point_value pt = Blood_oxygen item"
      by (auto simp: processSpO2Data_eq sort_by_date_set)
    from uniqueData_first[OF i] pt
    show "\<exists>item. find (\<lambda>x. date x = point_date pt) data = Some item \<and>
                 point_value pt = Blood_oxygen item"
      by auto
  qed
  have 5: "map point_date (processHeartRateData api (Some hr)) = map date hr"
    by (cases hr) (simp_all add: processHeartRateData_def comp_def)
  have 6: "map bp_date (processBPData api (Some bp)) = map date bp"
    by (cases bp) (simp_all add: processBPData_def comp_def)
  have 7: "map point_date (processHRVData api (Some hv)) = map date hv"
    by (cases hv) (simp_all add: processHRVData_def comp_def)
  have 8: "map point_date (processStressData api (Some st)) = map date st"
    by (cases st) (simp_all add: processStressData_def comp_def)
  from 1 2 3 4 5 6 7 8 sort_by_date_mset show ?thesis by blast
qed

text \<open>
  Two SpO2 records of 08:00 and one of 07:00: the second record of 08:00 is dropped and
  07:00 comes first. Two heart-rate records of 08:00 both stay.
\<close>

theorem spo2_deduplicates_witness:
  "processSpO2Data example_api
     (Some [oxygen ''2026-01-01T08:00:00Z'' 97, oxygen ''2026-01-01T08:00:00Z'' 95,
            oxygen ''2026-01-01T07:00:00Z'' 98])
   = [\<lparr>time = ''07:00'', point_value = 98, fullTime = ''07:00:00'',
        point_date = ''2026-01-01T07:00:00Z''\<rparr>,
      \<lparr>time = ''08:00'', point_value = 97, fullTime = ''08:00:00'',
        point_date = ''2026-01-01T08:00:00Z''\<rparr>] \<and>
   distinct (map point_date (processSpO2Data example_api
     (Some [oxygen ''2026-01-01T08:00:00Z'' 97, oxygen ''2026-01-01T08:00:00Z'' 95,
            oxygen ''2026-01-01T07:00:00Z'' 98]))) \<and>
   map point_date (processHeartRateData example_api
     (Some [beat ''2026-01-01T08:00:00Z'' 72, beat ''2026-01-01T08:00:00Z'' 75]))
   = [''2026-01-01T08:00:00Z'', ''2026-01-01T08:00:00Z'']"
  using spo2_deduplicates[of example_api
      "[oxygen ''2026-01-01T08:00:00Z'' 97, oxygen ''2026-01-01T08:00:00Z'' 95,
        oxygen ''2026-01-01T07:00:00Z'' 98]"
      "[beat ''2026-01-01T08:00:00Z'' 72, beat ''2026-01-01T08:00:00Z'' 75]" "[]" "[]" "[]"]
  by (simp add: processSpO2Data_def sort_by_date_def example_api_def oxygen_def beat_def)

end
